theory Spec2Isabelle
  imports Main "HOL-Library.Multiset"
begin

section \<open>The root layout of the web client: realtime coordination\<close>

text \<open>
  A shallow embedding of the script block of \<^verbatim>\<open>src/routes/+layout.svelte\<close>: the sandbox
  runner (\<^verbatim>\<open>executePythonAsWorker\<close>), the tool invoker (\<^verbatim>\<open>executeTool\<close>), the two event
  handlers (\<^verbatim>\<open>chatEventHandler\<close>, \<^verbatim>\<open>channelEventHandler\<close>), the session guard
  (\<^verbatim>\<open>checkTokenExpiry\<close>) and the tab coordinator (\<^verbatim>\<open>bc.onmessage\<close>,
  \<^verbatim>\<open>handleVisibilityChange\<close>).

  Svelte stores and \<^verbatim>\<open>localStorage\<close> are fields of explicit state records that every
  handler takes and returns. What a handler does to the outside (acknowledgment callbacks,
  socket emissions, notifications, requests to API collaborators) is returned as a list of
  effects in program order. The API collaborators live outside this file
  (\<^verbatim>\<open>$lib/apis/...\<close>); the outcome of each call (the promise resolves with a value or
  rejects with an error) is a parameter of the handler that awaits it.
\<close>

subsection \<open>JavaScript values\<close>

text \<open>
  The values that flow through the handlers. \<open>JUndefined\<close> stands for \<^verbatim>\<open>undefined\<close>, also
  for a property that is missing; \<open>JBig\<close> is a \<^verbatim>\<open>bigint\<close>. Numbers are integers here: the
  handlers only count, compare timestamps and index arrays.
\<close>

datatype json =
    JUndefined
  | JNull
  | JBool bool
  | JNum int
  | JBig int
  | JStr string
  | JArr "json list"
  | JObj "(string \<times> json) list"

text \<open>Truthiness, as \<^verbatim>\<open>if (v)\<close> and \<^verbatim>\<open>Boolean(v)\<close> decide it.\<close>

fun truthy :: "json \<Rightarrow> bool" where
  "truthy JUndefined = False"
| "truthy JNull = False"
| "truthy (JBool b) = b"
| "truthy (JNum n) = (n \<noteq> 0)"
| "truthy (JBig n) = (n \<noteq> 0)"
| "truthy (JStr s) = (s \<noteq> [])"
| "truthy (JArr xs) = True"
| "truthy (JObj kvs) = True"

text \<open>Decimal text of an integer, as \<^verbatim>\<open>BigInt.prototype.toString\<close> prints it.\<close>

definition digit_char :: "nat \<Rightarrow> char" where
  "digit_char n = ''0123456789'' ! n"

fun dec_nat :: "nat \<Rightarrow> string" where
  "dec_nat n = (if n < 10 then [digit_char n] else dec_nat (n div 10) @ [digit_char (n mod 10)])"

definition dec_int :: "int \<Rightarrow> string" where
  "dec_int i = (if i < 0 then CHR ''-'' # dec_nat (nat (- i)) else dec_nat (nat i))"

text \<open>
  \<^verbatim>\<open>JSON.parse(JSON.stringify(v, (_k, v) => typeof v === 'bigint' ? v.toString() : v))\<close>:
  a bigint becomes its decimal string, a property whose value is \<^verbatim>\<open>undefined\<close> is dropped
  from its object, and \<^verbatim>\<open>undefined\<close> inside an array becomes \<^verbatim>\<open>null\<close>.
\<close>

primrec roundtrip :: "json \<Rightarrow> json" where
  "roundtrip JUndefined = JUndefined"
| "roundtrip JNull = JNull"
| "roundtrip (JBool b) = JBool b"
| "roundtrip (JNum n) = JNum n"
| "roundtrip (JBig n) = JStr (dec_int n)"
| "roundtrip (JStr s) = JStr s"
| "roundtrip (JArr xs) =
     JArr (map (\<lambda>v. if v = JUndefined then JNull else v) (map roundtrip xs))"
| "roundtrip (JObj kvs) =
     JObj (filter (\<lambda>kv. snd kv \<noteq> JUndefined) (map (map_prod id roundtrip) kvs))"

text \<open>
  \<^verbatim>\<open>Array.prototype.indexOf\<close>: the first index whose element is strictly equal to the
  value, or \<open>-1\<close>.
\<close>

fun indexOf_from :: "'a list \<Rightarrow> 'a \<Rightarrow> int \<Rightarrow> int" where
  "indexOf_from [] v i = - 1"
| "indexOf_from (x # xs) v i = (if x = v then i else indexOf_from xs v (i + 1))"

definition indexOf :: "'a list \<Rightarrow> 'a \<Rightarrow> int" where
  "indexOf xs v = indexOf_from xs v 0"

text \<open>
  \<^verbatim>\<open>Array.prototype.sort(cmp)\<close>. ECMAScript requires the sort to be stable; with a
  comparator that is a difference of keys the result is the stable ordering by key, which
  insertion from the right computes: an element goes before the first one it does not
  compare greater than.
\<close>

fun insert_by :: "('a \<Rightarrow> 'a \<Rightarrow> int) \<Rightarrow> 'a \<Rightarrow> 'a list \<Rightarrow> 'a list" where
  "insert_by cmp x [] = [x]"
| "insert_by cmp x (y # ys) = (if cmp x y \<le> 0 then x # y # ys else y # insert_by cmp x ys)"

definition js_sort :: "('a \<Rightarrow> 'a \<Rightarrow> int) \<Rightarrow> 'a list \<Rightarrow> 'a list" where
  "js_sort cmp xs = foldr (insert_by cmp) xs []"

text \<open>\<^verbatim>\<open>String.prototype.includes\<close>: the needle occurs somewhere in the text.\<close>

fun str_includes :: "string \<Rightarrow> string \<Rightarrow> bool" where
  "str_includes [] needle = (needle = [])"
| "str_includes (c # cs) needle =
     (take (length needle) (c # cs) = needle \<or> str_includes cs needle)"

text \<open>A template literal prints \<^verbatim>\<open>undefined\<close> for a missing value.\<close>

fun tmpl :: "string option \<Rightarrow> string" where
  "tmpl None = ''undefined''"
| "tmpl (Some s) = s"

text \<open>A string that may be \<^verbatim>\<open>undefined\<close>, as a value.\<close>

definition opt_str :: "string option \<Rightarrow> json" where
  "opt_str t = (case t of None \<Rightarrow> JUndefined | Some s \<Rightarrow> JStr s)"

subsection \<open>Channel summaries and their order\<close>

text \<open>
  A channel as the list holds it. \<open>unread_count\<close> and \<open>last_message_at\<close> are \<open>None\<close> when
  the property is \<^verbatim>\<open>null\<close> or missing. Every other property of the object is in
  \<open>ch_rest\<close>, which the handlers copy untouched (\<^verbatim>\<open>{ ...ch, ... }\<close>).
\<close>

record channel =
  ch_id :: string
  ch_type :: json
  unread_count :: "int option"
  last_message_at :: "int option"
  ch_rest :: "(string \<times> json) list"

text \<open>The literal \<^verbatim>\<open>['', null, 'group', 'dm']\<close> of both sort calls.\<close>

definition type_priority :: "json list" where
  "type_priority = [JStr [], JNull, JStr ''group'', JStr ''dm'']"

definition type_index :: "channel \<Rightarrow> int" where
  "type_index c = indexOf type_priority (ch_type c)"

text \<open>
  The comparator
  \<^verbatim>\<open>(a, b) => ['', null, 'group', 'dm'].indexOf(a.type) - ['', null, 'group', 'dm'].indexOf(b.type)\<close>.
\<close>

definition channel_cmp :: "channel \<Rightarrow> channel \<Rightarrow> int" where
  "channel_cmp a b = type_index a - type_index b"

definition sort_channels :: "channel list \<Rightarrow> channel list" where
  "sort_channels res = js_sort channel_cmp res"

subsection \<open>Promises, effects and the stores\<close>

text \<open>How an awaited call on a collaborator ends: the promise rejects or resolves.\<close>

datatype 'a outcome = Rejects json | Resolves 'a

text \<open>\<^verbatim>\<open>promise.catch(() => null)\<close>: a rejection becomes \<^verbatim>\<open>null\<close>.\<close>

fun catch_null :: "'a option outcome \<Rightarrow> 'a option" where
  "catch_null (Rejects e) = None"
| "catch_null (Resolves v) = v"

text \<open>
  The calls the handlers make on the API collaborators, with their arguments, and the
  effects of the handlers: a call of the acknowledgment callback, an emission on the
  socket, a request to a collaborator, a message on the broadcast channel, an OS
  notification (title, body, icon), a toast (title, content, target of a click), the
  notification sound, and the two operations on the worker. Icon paths are written without
  the base URL constants of \<^verbatim>\<open>$lib/constants\<close>.
\<close>

datatype api_call =
    GetChannels "string option"
  | GetChatList "string option" int
  | GetAllTags "string option"
  | UserSignOut
  | ExecuteToolServer json "string option" json json json
  | ChatCompletion json string json

datatype effect =
    Ack json
  | Emit string json
  | Request api_call
  | Broadcast json
  | OsNotification string json string
  | Toast json json string
  | PlaySound
  | WorkerPost string string
  | WorkerTerminate

text \<open>
  What a piece of code did and how it ended: its effects in order, and the value it threw
  (\<open>None\<close> when it completed).
\<close>

type_synonym run = "effect list \<times> json option"

text \<open>Stand-ins for the built-in error objects.\<close>

definition type_error :: json where
  "type_error = JObj [(''name'', JStr ''TypeError'')]"

definition syntax_error :: json where
  "syntax_error = JObj [(''name'', JStr ''SyntaxError'')]"

text \<open>Statement sequencing: what follows a throw does not run.\<close>

definition seq :: "run \<Rightarrow> run \<Rightarrow> run" where
  "seq a b = (case snd a of Some e \<Rightarrow> a | None \<Rightarrow> (fst a @ fst b, snd b))"

text \<open>
  \<^verbatim>\<open>try { body } catch (error) { handler } finally { fin }\<close>: the handler runs on a throw
  of the body, the finalizer runs in every case, and a throw of the finalizer replaces
  whatever was pending.
\<close>

definition try_catch_finally :: "run \<Rightarrow> (json \<Rightarrow> run) \<Rightarrow> run \<Rightarrow> run" where
  "try_catch_finally body handler fin =
     (let caught = (case snd body of
                      None \<Rightarrow> body
                    | Some e \<Rightarrow> (fst body @ fst (handler e), snd (handler e)))
      in (fst caught @ fst fin, (case snd fin of Some e \<Rightarrow> Some e | None \<Rightarrow> snd caught)))"

text \<open>
  Calling the acknowledgment callback without a guard: a \<^verbatim>\<open>TypeError\<close> when the server
  asked for no acknowledgment and \<^verbatim>\<open>cb\<close> is \<^verbatim>\<open>undefined\<close>.
\<close>

definition call_cb :: "bool \<Rightarrow> json \<Rightarrow> run" where
  "call_cb has_cb v = (if has_cb then ([Ack v], None) else ([], Some type_error))"

text \<open>\<^verbatim>\<open>if (cb) cb(v)\<close>.\<close>

definition guarded_cb :: "bool \<Rightarrow> json \<Rightarrow> effect list" where
  "guarded_cb has_cb v = (if has_cb then [Ack v] else [])"

record session =
  user_id :: string
  expires_at :: "int option"

record tool_server =
  ts_url :: "string option"
  ts_auth_type :: "string option"
  ts_key :: json

record api_config =
  prefix_id :: "string option"

record direct_connections =
  OPENAI_API_BASE_URLS :: "string list option"
  OPENAI_API_KEYS :: "string list option"
  OPENAI_API_CONFIGS :: "api_config list option"

text \<open>
  \<^verbatim>\<open>$settings\<close>. A flag is \<open>False\<close> and a table is \<open>None\<close> when the property, or the
  settings object itself, is missing.
\<close>

record settings =
  notificationEnabled :: bool
  notificationSoundAlways :: bool
  settings_toolServers :: "tool_server list option"
  directConnections :: "direct_connections option"

record socket =
  socket_id :: "string option"

text \<open>
  The stores and browser state the handlers read and write. \<open>token\<close> is
  \<^verbatim>\<open>localStorage.token\<close>, \<open>href\<close> is \<^verbatim>\<open>location.href\<close>, \<open>pathname\<close> is
  \<^verbatim>\<open>$page.url.pathname\<close> and \<open>visible\<close> says whether \<^verbatim>\<open>document.visibilityState\<close> is
  \<^verbatim>\<open>'visible'\<close>. \<open>toolServers\<close> is the \<^verbatim>\<open>$toolServers\<close> store: the data of each
  server, by URL.
\<close>

record stores =
  user :: "session option"
  token :: "string option"
  href :: string
  pathname :: string
  visible :: bool
  isLastActiveTab :: bool
  channels :: "channel list option"
  channelId :: "string option"
  chatId :: string
  temporaryChatEnabled :: bool
  currentChatPage :: int
  chats :: json
  tags :: json
  settings :: settings
  toolServers :: "(string option \<times> json) list option"
  socket :: "socket option"

subsection \<open>Channel events\<close>

text \<open>
  The envelope of a channel event, with the properties the handler reads:
  \<^verbatim>\<open>event.data?.type\<close>, \<^verbatim>\<open>event.channel_id\<close>, \<^verbatim>\<open>event?.user?.id\<close>,
  \<^verbatim>\<open>event.created_at\<close>, \<^verbatim>\<open>event?.channel?.type\<close>, \<^verbatim>\<open>event?.channel?.name\<close> and, of
  \<^verbatim>\<open>event?.data?.data\<close>, \<^verbatim>\<open>user?.name\<close>, \<^verbatim>\<open>user?.id\<close> and \<^verbatim>\<open>content\<close>.
\<close>

record channel_event =
  ev_type :: "string option"
  ev_channel_id :: string
  ev_author :: "string option"
  ev_created_at :: "int option"
  ev_channel_type :: json
  ev_channel_name :: "string option"
  ev_sender_name :: "string option"
  ev_sender_id :: "string option"
  ev_content :: json

text \<open>The suffix of a notification title: a space, a bullet (U+2022) and the product name.\<close>

definition title_suffix :: string where
  "title_suffix = [CHR '' '', CHR 0xE2, CHR 0x80, CHR 0xA2] @ '' Open WebUI''"

text \<open>
  The re-fetch of both call sites:
  \<^verbatim>\<open>const res = await getChannels(localStorage.token).catch(() => null);
  if (res) channels.set(res.sort(...));\<close>
\<close>

definition refetch_channels :: "channel list option outcome \<Rightarrow> stores \<Rightarrow> stores" where
  "refetch_channels fetched st =
     (case catch_null fetched of
        None \<Rightarrow> st
      | Some res \<Rightarrow> st\<lparr>channels := Some (sort_channels res)\<rparr>)"

text \<open>
  The function mapped over the list:
  \<^verbatim>\<open>ch.id === event.channel_id && type === 'message'
    ? { ...ch, unread_count: (ch.unread_count ?? 0) + 1, last_message_at: event.created_at }
    : ch\<close>
\<close>

definition bump_channel :: "channel_event \<Rightarrow> channel \<Rightarrow> channel" where
  "bump_channel ev ch =
     (if ch_id ch = ev_channel_id ev \<and> ev_type ev = Some ''message''
      then ch\<lparr>unread_count := Some ((case unread_count ch of None \<Rightarrow> 0 | Some n \<Rightarrow> n) + 1),
              last_message_at := ev_created_at ev\<rparr>
      else ch)"

text \<open>
  The gate \<^verbatim>\<open>(!onChannelPage || isFocused) && event?.user?.id !== $user?.id\<close>, where
  \<^verbatim>\<open>isFocused\<close> is \<^verbatim>\<open>document.visibilityState !== 'visible'\<close> and \<^verbatim>\<open>onChannelPage\<close> is
  \<^verbatim>\<open>$page.url.pathname.includes(`/channels/${event.channel_id}`)\<close>.
\<close>

definition channel_gate :: "channel_event \<Rightarrow> stores \<Rightarrow> bool" where
  "channel_gate ev st =
     (let isFocused = \<not> visible st;
          onChannelPage = str_includes (pathname st) (''/channels/'' @ ev_channel_id ev)
      in (\<not> onChannelPage \<or> isFocused) \<and> ev_author ev \<noteq> map_option user_id (user st))"

text \<open>The toast and, on the last active tab with notifications enabled, the OS notification
  of a \<^verbatim>\<open>message\<close> event.\<close>

definition channel_notifications :: "channel_event \<Rightarrow> stores \<Rightarrow> effect list" where
  "channel_notifications ev st =
     (let title = tmpl (ev_sender_name ev) @
                  (if ev_channel_type ev \<noteq> JStr ''dm''
                   then '' (#'' @ tmpl (ev_channel_name ev) @ '')'' else [])
      in (if isLastActiveTab st \<and> notificationEnabled (settings st)
          then [OsNotification (title @ title_suffix) (ev_content ev)
                  (''/users/'' @ tmpl (ev_sender_id ev) @ ''/profile/image'')]
          else []) @
         [Toast (JStr title) (ev_content ev) (''/channels/'' @ ev_channel_id ev)])"

text \<open>
  \<^verbatim>\<open>channelEventHandler\<close>. \<open>fetched\<close> is how \<^verbatim>\<open>getChannels\<close> ends if the handler calls it.
  The handler runs against one snapshot of the stores: no other handler runs between its
  awaits.
\<close>

definition channelEventHandler ::
  "channel list option outcome \<Rightarrow> channel_event \<Rightarrow> stores \<Rightarrow> stores \<times> effect list" where
  "channelEventHandler fetched ev st =
     (if ev_type ev = Some ''typing'' then (st, [])
      else if ev_type ev = Some ''channel:created''
      then (refetch_channels fetched st, [Request (GetChannels (token st))])
      else if channel_gate ev st
      then (let upd =
                  (case channels st of
                     None \<Rightarrow> (st, [])
                   | Some chs \<Rightarrow>
                       if find (\<lambda>ch. ch_id ch = ev_channel_id ev) chs \<noteq> None
                          \<and> channelId st \<noteq> Some (ev_channel_id ev)
                       then (st\<lparr>channels := Some (map (bump_channel ev) chs)\<rparr>, [])
                       else (refetch_channels fetched st, [Request (GetChannels (token st))]))
            in (fst upd,
                snd upd @ (if ev_type ev = Some ''message''
                           then channel_notifications ev (fst upd) else [])))
      else (st, []))"

subsection \<open>The sandbox runner\<close>

text \<open>
  The local variables of one call of \<^verbatim>\<open>executePythonAsWorker\<close>, shared by its three
  callbacks, and \<open>terminated\<close>: whether \<^verbatim>\<open>pyodideWorker.terminate()\<close> has been called.
\<close>

record py_run =
  result :: json
  stdout :: json
  stderr :: json
  executing :: bool
  terminated :: bool



text \<open>
  The call itself: the variables are initialised, the worker is created and sent
  \<^verbatim>\<open>{ id, code, packages }\<close>, the timer is set and the two callbacks are registered.
  The package list, computed from the code text by regular expressions, goes to the worker
  only and is left out.
\<close>

definition executePythonAsWorker :: "string \<Rightarrow> string \<Rightarrow> py_run \<times> effect list" where
  "executePythonAsWorker ident code =
     (\<lparr>result = JNull, stdout = JNull, stderr = JNull, executing = True, terminated = False\<rparr>,
      [WorkerPost ident code])"










subsection \<open>The tool invoker\<close>

text \<open>
  The payload of a command event (\<^verbatim>\<open>event.data.data\<close>), with the properties the handlers
  read: \<^verbatim>\<open>done\<close>, \<^verbatim>\<open>title\<close>, \<^verbatim>\<open>content\<close>, \<^verbatim>\<open>session_id\<close>, \<^verbatim>\<open>id\<close>, \<^verbatim>\<open>code\<close>,
  \<^verbatim>\<open>server?.url\<close>, \<^verbatim>\<open>name\<close>, \<^verbatim>\<open>params\<close>, \<^verbatim>\<open>channel\<close>, \<^verbatim>\<open>form_data\<close> and
  \<^verbatim>\<open>model?.urlIdx\<close>.
\<close>

record form_data =
  fd_model :: string
  fd_stream :: bool
  fd_rest :: json

record chat_data =
  d_done :: json
  d_title :: "string option"
  d_content :: json
  d_session_id :: json
  d_id :: string
  d_code :: string
  d_server_url :: "string option"
  d_name :: json
  d_params :: json
  d_channel :: string
  d_form_data :: form_data
  d_urlIdx :: "nat option"

text \<open>\<^verbatim>\<open>JSON.stringify\<close> without a replacer throws a \<^verbatim>\<open>TypeError\<close> on a bigint.\<close>

primrec has_big :: "json \<Rightarrow> bool" where
  "has_big JUndefined = False"
| "has_big JNull = False"
| "has_big (JBool b) = False"
| "has_big (JNum n) = False"
| "has_big (JBig n) = True"
| "has_big (JStr s) = False"
| "has_big (JArr xs) = (\<exists>v \<in> set (map has_big xs). v)"
| "has_big (JObj kvs) = (\<exists>v \<in> set (map (map_prod id has_big) kvs). snd v)"

text \<open>
  \<^verbatim>\<open>if (cb) cb(JSON.parse(JSON.stringify(res)))\<close>: \<^verbatim>\<open>JSON.stringify(undefined)\<close> is
  \<^verbatim>\<open>undefined\<close>, which \<^verbatim>\<open>JSON.parse\<close> rejects with a \<^verbatim>\<open>SyntaxError\<close>.
\<close>

definition relay_result :: "bool \<Rightarrow> json \<Rightarrow> run" where
  "relay_result has_cb res =
     (if \<not> has_cb then ([], None)
      else if has_big res then ([], Some type_error)
      else if res = JUndefined then ([], Some syntax_error)
      else ([Ack (roundtrip res)], None))"

text \<open>The credential of a matching server:
  \<^verbatim>\<open>toolServer?.auth_type ?? 'bearer'\<close> decides between the server's key and the session token.\<close>

definition tool_server_token :: "tool_server \<Rightarrow> stores \<Rightarrow> json" where
  "tool_server_token ts st =
     (let auth_type = (case ts_auth_type ts of None \<Rightarrow> ''bearer'' | Some a \<Rightarrow> a)
      in if auth_type = ''bearer'' then ts_key ts
         else if auth_type = ''session'' then opt_str (token st)
         else JNull)"

text \<open>
  The two lookups by URL, in \<^verbatim>\<open>$settings?.toolServers\<close> and in \<^verbatim>\<open>$toolServers\<close>:
  \<^verbatim>\<open>find((server) => server.url === data.server?.url)\<close>.
\<close>

definition find_tool_server :: "chat_data \<Rightarrow> stores \<Rightarrow> tool_server option" where
  "find_tool_server d st =
     (case settings_toolServers (settings st) of
        None \<Rightarrow> None
      | Some servers \<Rightarrow> find (\<lambda>server. ts_url server = d_server_url d) servers)"

definition find_tool_server_data :: "chat_data \<Rightarrow> stores \<Rightarrow> json" where
  "find_tool_server_data d st =
     (case toolServers st of
        None \<Rightarrow> JUndefined
      | Some servers \<Rightarrow>
          (case find (\<lambda>server. fst server = d_server_url d) servers of
             None \<Rightarrow> JUndefined
           | Some server \<Rightarrow> snd server))"

text \<open>
  \<^verbatim>\<open>executeTool\<close>. \<open>called\<close> is how \<^verbatim>\<open>executeToolServer\<close> ends if it is called. The
  payload is read only inside the two \<^verbatim>\<open>find\<close> callbacks: with a payload that is
  \<^verbatim>\<open>null\<close>, reading \<^verbatim>\<open>data.server\<close> throws as soon as one of the two tables has an entry to
  test, and with nothing to test no server is found.
\<close>

definition executeTool :: "json outcome \<Rightarrow> chat_data option \<Rightarrow> bool \<Rightarrow> stores \<Rightarrow> run" where
  "executeTool called payload has_cb st =
     (case payload of
        None \<Rightarrow>
          if (case settings_toolServers (settings st) of
                None \<Rightarrow> False | Some servers \<Rightarrow> servers \<noteq> [])
             \<or> (case toolServers st of None \<Rightarrow> False | Some servers \<Rightarrow> servers \<noteq> [])
          then ([], Some type_error)
          else (guarded_cb has_cb (JObj [(''error'', JStr ''Tool Server Not Found'')]), None)
      | Some d \<Rightarrow>
          (case find_tool_server d st of
             Some ts \<Rightarrow>
               seq ([Request (ExecuteToolServer (tool_server_token ts st) (ts_url ts)
                                (d_name d) (d_params d) (find_tool_server_data d st))], None)
                   (case called of
                      Rejects e \<Rightarrow> ([], Some e)
                    | Resolves res \<Rightarrow> relay_result has_cb res)
           | None \<Rightarrow>
               (guarded_cb has_cb (JObj [(''error'', JStr ''Tool Server Not Found'')]), None)))"

subsection \<open>Chat events\<close>

text \<open>
  The envelope of a chat event: \<^verbatim>\<open>event.chat_id\<close>, \<^verbatim>\<open>event?.data?.type\<close> and
  \<^verbatim>\<open>event?.data?.data\<close> (\<open>None\<close> when it is \<^verbatim>\<open>null\<close> or missing).
\<close>

record chat_event =
  ce_chat_id :: "string option"
  ce_type :: "string option"
  ce_data :: "chat_data option"

text \<open>
  The response of the proxied call: \<^verbatim>\<open>res.ok\<close>, how \<^verbatim>\<open>res.json()\<close> ends, and the body
  as its reader delivers it: the decoded text of each chunk, then the end of the stream or
  a failed read.
\<close>

datatype stream_end = EndOfStream | ReadFails json

record response =
  ok :: bool
  json_body :: "json outcome"
  chunks :: "string list"
  ending :: stream_end

text \<open>\<^verbatim>\<open>text.split('\n')\<close>.\<close>

fun split_lines :: "string \<Rightarrow> string list" where
  "split_lines [] = [[]]"
| "split_lines (c # cs) =
     (if c = CHR 0x0A then [] # split_lines cs
      else (case split_lines cs of [] \<Rightarrow> [[c]] | l # ls \<Rightarrow> (c # l) # ls))"

text \<open>
  \<^verbatim>\<open>l.trim() !== ''\<close>: the line has a character that \<^verbatim>\<open>trim\<close> does not strip. Text is
  held as its UTF-8 bytes, and \<^verbatim>\<open>trim\<close> strips the white space and line terminators of
  ECMAScript: the six ASCII ones, U+00A0 (two bytes), and U+1680, U+2000 to U+200A,
  U+2028, U+2029, U+202F, U+205F, U+3000 and U+FEFF (three bytes each).
\<close>

definition is_space :: "char \<Rightarrow> bool" where
  "is_space c = (c \<in> set [CHR 0x09, CHR 0x0A, CHR 0x0B, CHR 0x0C, CHR 0x0D, CHR '' ''])"

definition nbsp :: string where
  "nbsp = [CHR 0xC2, CHR 0xA0]"

definition wide_spaces :: "string list" where
  "wide_spaces =
     [[CHR 0xE1, CHR 0x9A, CHR 0x80],
      [CHR 0xE2, CHR 0x80, CHR 0x80], [CHR 0xE2, CHR 0x80, CHR 0x81],
      [CHR 0xE2, CHR 0x80, CHR 0x82], [CHR 0xE2, CHR 0x80, CHR 0x83],
      [CHR 0xE2, CHR 0x80, CHR 0x84], [CHR 0xE2, CHR 0x80, CHR 0x85],
      [CHR 0xE2, CHR 0x80, CHR 0x86], [CHR 0xE2, CHR 0x80, CHR 0x87],
      [CHR 0xE2, CHR 0x80, CHR 0x88], [CHR 0xE2, CHR 0x80, CHR 0x89],
      [CHR 0xE2, CHR 0x80, CHR 0x8A],
      [CHR 0xE2, CHR 0x80, CHR 0xA8], [CHR 0xE2, CHR 0x80, CHR 0xA9],
      [CHR 0xE2, CHR 0x80, CHR 0xAF],
      [CHR 0xE2, CHR 0x81, CHR 0x9F],
      [CHR 0xE3, CHR 0x80, CHR 0x80],
      [CHR 0xEF, CHR 0xBB, CHR 0xBF]]"

text \<open>A line that \<^verbatim>\<open>trim\<close> empties: white space from end to end.\<close>

fun blank :: "string \<Rightarrow> bool" where
  "blank [] = True"
| "blank [a] = is_space a"
| "blank [a, b] = (if is_space a then is_space b else [a, b] = nbsp)"
| "blank (a # b # c # cs) =
     (if is_space a then blank (b # c # cs)
      else if [a, b] = nbsp then blank (c # cs)
      else [a, b, c] \<in> set wide_spaces \<and> blank cs)"

definition not_blank :: "string \<Rightarrow> bool" where
  "not_blank l = (\<not> blank l)"

text \<open>\<^verbatim>\<open>$socket?.emit(channel, payload)\<close>.\<close>

definition socket_emit :: "stores \<Rightarrow> string \<Rightarrow> json \<Rightarrow> effect list" where
  "socket_emit st channel payload =
     (case socket st of None \<Rightarrow> [] | Some sock \<Rightarrow> [Emit channel payload])"

text \<open>
  The read loop:
  \<^verbatim>\<open>while (true) { const { done, value } = await reader.read(); if (done) break;
    const lines = decoder.decode(value, { stream: true }).split('\n').filter((l) => l.trim() !== '');
    for (const line of lines) $socket?.emit(channel, line); }\<close>
\<close>

fun read_loop :: "stores \<Rightarrow> string \<Rightarrow> string list \<Rightarrow> stream_end \<Rightarrow> run" where
  "read_loop st channel [] EndOfStream = ([], None)"
| "read_loop st channel [] (ReadFails e) = ([], Some e)"
| "read_loop st channel (chunk # rest) fin =
     seq (concat (map (\<lambda>line. socket_emit st channel (JStr line))
                      (filter not_blank (split_lines chunk))), None)
         (read_loop st channel rest fin)"

text \<open>\<^verbatim>\<open>array[index]\<close>: a \<^verbatim>\<open>TypeError\<close> when the array is \<^verbatim>\<open>undefined\<close>, and
  \<^verbatim>\<open>undefined\<close> when the index is \<^verbatim>\<open>undefined\<close> or out of range.\<close>

definition js_index :: "'a list option \<Rightarrow> nat option \<Rightarrow> json + 'a option" where
  "js_index arr idx =
     (case arr of
        None \<Rightarrow> Inl type_error
      | Some xs \<Rightarrow>
          (case idx of
             None \<Rightarrow> Inr None
           | Some i \<Rightarrow> if i < length xs then Inr (Some (xs ! i)) else Inr None))"

text \<open>\<^verbatim>\<open>text.replace(pattern, replacement)\<close> with a string pattern: the first occurrence.\<close>

fun replace_first :: "string \<Rightarrow> string \<Rightarrow> string \<Rightarrow> string" where
  "replace_first pat rep [] = (if pat = [] then rep else [])"
| "replace_first pat rep (c # cs) =
     (if take (length pat) (c # cs) = pat then rep @ drop (length pat) (c # cs)
      else c # replace_first pat rep cs)"

text \<open>What follows a response that is not null.\<close>

definition relay_response :: "bool \<Rightarrow> stores \<Rightarrow> string \<Rightarrow> form_data \<Rightarrow> response \<Rightarrow> run" where
  "relay_response has_cb st channel fd res =
     (if \<not> ok res
      then (case json_body res of Rejects e \<Rightarrow> ([], Some e) | Resolves v \<Rightarrow> ([], Some v))
      else if fd_stream fd
      then seq (call_cb has_cb (JObj [(''status'', JBool True)]))
               (read_loop st channel (chunks res) (ending res))
      else (case json_body res of
              Rejects e \<Rightarrow> ([], Some e)
            | Resolves v \<Rightarrow> call_cb has_cb v))"

text \<open>
  The body of the \<^verbatim>\<open>try\<close> block. \<^verbatim>\<open>$settings?.directConnections ?? {}\<close> is an object in
  every case, so the \<^verbatim>\<open>if (directConnections)\<close> around the body is always taken; without
  stored connections the three tables are \<^verbatim>\<open>undefined\<close>. \<open>completed\<close> is how
  \<^verbatim>\<open>chatCompletion\<close> ends if it is called: it resolves with a pair whose first component
  is the response or \<^verbatim>\<open>null\<close>.
\<close>

definition completion_body ::
  "response option outcome \<Rightarrow> bool \<Rightarrow> chat_data \<Rightarrow> stores \<Rightarrow> run" where
  "completion_body completed has_cb d st =
     (let dc = (case directConnections (settings st) of
                  None \<Rightarrow> \<lparr>OPENAI_API_BASE_URLS = None, OPENAI_API_KEYS = None,
                            OPENAI_API_CONFIGS = None\<rparr>
                | Some c \<Rightarrow> c)
      in case js_index (OPENAI_API_BASE_URLS dc) (d_urlIdx d) of
           Inl e \<Rightarrow> ([], Some e)
         | Inr url \<Rightarrow>
        (case js_index (OPENAI_API_KEYS dc) (d_urlIdx d) of
           Inl e \<Rightarrow> ([], Some e)
         | Inr key \<Rightarrow>
        (case js_index (OPENAI_API_CONFIGS dc) (d_urlIdx d) of
           Inl e \<Rightarrow> ([], Some e)
         | Inr config \<Rightarrow>
             (let fd = d_form_data d;
                  fd' = (case config of
                           None \<Rightarrow> fd
                         | Some c \<Rightarrow>
                             (case prefix_id c of
                                None \<Rightarrow> fd
                              | Some p \<Rightarrow>
                                  if p = [] then fd
                                  else fd\<lparr>fd_model := replace_first (p @ ''.'') [] (fd_model fd)\<rparr>))
              in seq ([Request (ChatCompletion (opt_str key) (fd_model fd') (opt_str url))],
                      None)
                     (case completed of
                        Rejects e \<Rightarrow> ([], Some e)
                      | Resolves None \<Rightarrow> ([], None)
                      | Resolves (Some res) \<Rightarrow> relay_response has_cb st (d_channel d) fd' res)))))"

text \<open>
  The \<^verbatim>\<open>request:chat:completion\<close> command:
  \<^verbatim>\<open>try { ... } catch (error) { cb(error); } finally { $socket?.emit(channel, { done: true }); }\<close>
\<close>

definition request_chat_completion ::
  "response option outcome \<Rightarrow> bool \<Rightarrow> chat_data \<Rightarrow> stores \<Rightarrow> run" where
  "request_chat_completion completed has_cb d st =
     try_catch_finally
       (completion_body completed has_cb d st)
       (\<lambda>error. call_cb has_cb error)
       (socket_emit st (d_channel d) (JObj [(''done'', JBool True)]), None)"

text \<open>The notifications of a finished completion in another chat or a hidden tab.\<close>

definition chat_notifications :: "chat_event \<Rightarrow> chat_data \<Rightarrow> stores \<Rightarrow> effect list" where
  "chat_notifications ev d st =
     (if notificationSoundAlways (settings st) then [PlaySound] else []) @
     (if isLastActiveTab st \<and> notificationEnabled (settings st)
      then [OsNotification (tmpl (d_title d) @ title_suffix) (d_content d) ''/static/favicon.png'']
      else []) @
     [Toast (opt_str (d_title d)) (d_content d) (''/c/'' @ tmpl (ce_chat_id ev))]"

text \<open>
  What the collaborators of one chat event do if they are called: the host bridge's answer
  to \<^verbatim>\<open>window:isFocused\<close> (\<open>None\<close> without a bridge or without an answer), and how
  \<^verbatim>\<open>getChatList\<close>, \<^verbatim>\<open>getAllTags\<close>, \<^verbatim>\<open>executeToolServer\<close> and \<^verbatim>\<open>chatCompletion\<close> end.
\<close>

record chat_env =
  host_focused :: "bool option"
  chat_list :: "json outcome"
  all_tags :: "json outcome"
  tool_call :: "json outcome"
  completion :: "response option outcome"

text \<open>
  The first test of the handler,
  \<^verbatim>\<open>(event.chat_id !== $chatId && !$temporaryChatEnabled) || isFocused\<close>, where
  \<^verbatim>\<open>isFocused\<close> is \<^verbatim>\<open>document.visibilityState !== 'visible'\<close> unless the host bridge
  answers.
\<close>

definition chat_notify_gate :: "chat_env \<Rightarrow> chat_event \<Rightarrow> stores \<Rightarrow> bool" where
  "chat_notify_gate env ev st =
     (let isFocused = (case host_focused env of None \<Rightarrow> \<not> visible st | Some f \<Rightarrow> f)
      in (ce_chat_id ev \<noteq> Some (chatId st) \<and> \<not> temporaryChatEnabled st) \<or> isFocused)"

text \<open>
  The second test, \<^verbatim>\<open>data?.session_id === $socket?.id\<close>, a strict equality of values: the
  left side is \<^verbatim>\<open>undefined\<close> without a payload, the right side is \<^verbatim>\<open>undefined\<close> without a
  socket or without an id, and \<^verbatim>\<open>null\<close> is equal to neither.
\<close>

definition own_session :: "chat_event \<Rightarrow> stores \<Rightarrow> bool" where
  "own_session ev st =
     ((case ce_data ev of None \<Rightarrow> JUndefined | Some d \<Rightarrow> d_session_id d)
        = (case socket st of None \<Rightarrow> JUndefined | Some sock \<Rightarrow> opt_str (socket_id sock)))"

text \<open>
  \<^verbatim>\<open>chatEventHandler\<close>: the new stores, the effects, and the error the handler's promise
  rejects with, if it does. The sandbox runner is started and not awaited; its later
  callbacks are those of \<open>sandbox_run\<close>. The tool invoker is not awaited either: its
  effects are listed here, and its rejection is not the handler's.
\<close>

definition chatEventHandler ::
  "chat_env \<Rightarrow> chat_event \<Rightarrow> bool \<Rightarrow> stores \<Rightarrow> stores \<times> run" where
  "chatEventHandler env ev has_cb st =
     (if chat_notify_gate env ev st
      then (if ce_type ev = Some ''chat:completion''
               \<and> (case ce_data ev of None \<Rightarrow> False | Some d \<Rightarrow> truthy (d_done d))
            then (case ce_data ev of
                    None \<Rightarrow> (st, [], None)
                  | Some d \<Rightarrow> (st, chat_notifications ev d st, None))
            else if ce_type ev = Some ''chat:title''
            then (let st' = st\<lparr>currentChatPage := 1\<rparr>
                  in case chat_list env of
                       Rejects e \<Rightarrow> (st', [Request (GetChatList (token st) 1)], Some e)
                     | Resolves v \<Rightarrow>
                         (st'\<lparr>chats := v\<rparr>, [Request (GetChatList (token st) 1)], None))
            else if ce_type ev = Some ''chat:tags''
            then (case all_tags env of
                    Rejects e \<Rightarrow> (st, [Request (GetAllTags (token st))], Some e)
                  | Resolves v \<Rightarrow> (st\<lparr>tags := v\<rparr>, [Request (GetAllTags (token st))], None))
            else (st, [], None))
      else if own_session ev st
      then (if ce_type ev = Some ''execute:python''
            then (case ce_data ev of
                    None \<Rightarrow> (st, [], Some type_error)
                  | Some d \<Rightarrow> (st, snd (executePythonAsWorker (d_id d) (d_code d)), None))
            else if ce_type ev = Some ''execute:tool''
            then (st, fst (executeTool (tool_call env) (ce_data ev) has_cb st), None)
            else if ce_type ev = Some ''request:chat:completion''
            then (case ce_data ev of
                    None \<Rightarrow> (st, [], Some type_error)
                  | Some d \<Rightarrow> (st, request_chat_completion (completion env) has_cb d st))
            else (st, [], None))
      else (st, [], None))"

subsection \<open>The session guard\<close>

text \<open>
  \<^verbatim>\<open>checkTokenExpiry\<close>. \<open>now\<close> is \<^verbatim>\<open>Math.floor(Date.now() / 1000)\<close>; \<open>signed_out\<close> is how
  \<^verbatim>\<open>userSignOut\<close> ends if it is called: it resolves with the \<^verbatim>\<open>redirect_url\<close> of its
  answer (\<open>None\<close> when the answer is \<^verbatim>\<open>null\<close> or has none). The test \<^verbatim>\<open>exp && ...\<close> fails
  for an expiry that is missing, \<^verbatim>\<open>null\<close> or \<open>0\<close>.
\<close>

definition checkTokenExpiry :: "int \<Rightarrow> string option outcome \<Rightarrow> stores \<Rightarrow> stores \<times> run" where
  "checkTokenExpiry now signed_out st =
     (let exp = (case user st of None \<Rightarrow> None | Some u \<Rightarrow> expires_at u)
      in case exp of
           None \<Rightarrow> (st, [], None)
         | Some e \<Rightarrow>
             if e \<noteq> 0 \<and> now \<ge> e - 60
             then (case signed_out of
                     Rejects err \<Rightarrow> (st, [Request UserSignOut], Some err)
                   | Resolves redirect_url \<Rightarrow>
                       (st\<lparr>user := None, token := None,
                           href := (case redirect_url of None \<Rightarrow> ''/auth'' | Some u \<Rightarrow> u)\<rparr>,
                        [Request UserSignOut], None))
             else (st, [], None))"

subsection \<open>The tab coordinator\<close>

text \<open>\<^verbatim>\<open>bc.onmessage\<close>, on the data of a message of the broadcast channel.\<close>

definition bc_onmessage :: "json \<Rightarrow> stores \<Rightarrow> stores" where
  "bc_onmessage msg st = (if msg = JStr ''active'' then st\<lparr>isLastActiveTab := False\<rparr> else st)"

text \<open>
  \<^verbatim>\<open>handleVisibilityChange\<close>. The expiry check is started and not awaited: the third
  component is what its promise rejects with.
\<close>

definition handleVisibilityChange ::
  "int \<Rightarrow> string option outcome \<Rightarrow> stores \<Rightarrow> stores \<times> run" where
  "handleVisibilityChange now signed_out st =
     (if visible st
      then (let checked = checkTokenExpiry now signed_out (st\<lparr>isLastActiveTab := True\<rparr>)
            in (fst checked, Broadcast (JStr ''active'') # fst (snd checked), snd (snd checked)))
      else (st, [], None))"

text \<open>
  Several tabs of one browser on the channel \<^verbatim>\<open>active-tab-channel\<close>, each with both
  handlers registered (\<^verbatim>\<open>onMount\<close> registers them outside development mode): the stores of each
  tab, and the messages posted and not yet dispatched, each with its sender and its
  receiver. A message posted by a tab goes to every other tab, never to the sender.
\<close>

record browser =
  tabs :: "stores list"
  in_flight :: "(nat \<times> nat \<times> json) list"

text \<open>
  What can happen: a tab's visibility changes (to visible or to hidden) and its handler
  runs, or the browser dispatches one message in flight.
\<close>

datatype tab_action =
    Shown nat int "string option outcome"
  | Hidden nat
  | Deliver nat nat json

fun is_broadcast :: "effect \<Rightarrow> bool" where
  "is_broadcast (Broadcast m) = True"
| "is_broadcast e = False"

fun broadcast_data :: "effect \<Rightarrow> json" where
  "broadcast_data (Broadcast m) = m"
| "broadcast_data e = JUndefined"

definition posted :: "nat \<Rightarrow> nat \<Rightarrow> effect list \<Rightarrow> (nat \<times> nat \<times> json) list" where
  "posted n i fx =
     concat (map (\<lambda>e. map (\<lambda>j. (i, j, broadcast_data e)) (filter (\<lambda>j. j \<noteq> i) [0..<n]))
                 (filter is_broadcast fx))"

text \<open>One step; \<open>None\<close> when the action names no tab or no message in flight.\<close>

fun tab_step :: "tab_action \<Rightarrow> browser \<Rightarrow> browser option" where
  "tab_step (Shown i now signed_out) b =
     (if i < length (tabs b)
      then (let r = handleVisibilityChange now signed_out ((tabs b ! i)\<lparr>visible := True\<rparr>)
            in Some (b\<lparr>tabs := (tabs b)[i := fst r],
                       in_flight := in_flight b @ posted (length (tabs b)) i (fst (snd r))\<rparr>))
      else None)"
| "tab_step (Hidden i) b =
     (if i < length (tabs b)
      then (let r = handleVisibilityChange 0 (Resolves None) ((tabs b ! i)\<lparr>visible := False\<rparr>)
            in Some (b\<lparr>tabs := (tabs b)[i := fst r]\<rparr>))
      else None)"
| "tab_step (Deliver i j m) b =
     (if (i, j, m) \<in> set (in_flight b) \<and> j < length (tabs b)
      then Some (b\<lparr>tabs := (tabs b)[j := bc_onmessage m (tabs b ! j)],
                   in_flight := remove1 (i, j, m) (in_flight b)\<rparr>)
      else None)"

fun tab_steps :: "tab_action list \<Rightarrow> browser \<Rightarrow> browser option" where
  "tab_steps [] b = Some b"
| "tab_steps (a # as) b = (case tab_step a b of None \<Rightarrow> None | Some b' \<Rightarrow> tab_steps as b')"

text \<open>The tab of the last visibility change to visible, the last one to broadcast.\<close>

fun last_shown :: "tab_action list \<Rightarrow> nat option" where
  "last_shown [] = None"
| "last_shown (Shown i now signed_out # as) =
     (case last_shown as of None \<Rightarrow> Some i | Some j \<Rightarrow> Some j)"
| "last_shown (a # as) = last_shown as"

text \<open>
  The invariant behind the protocol: every tab other than \<open>c\<close> whose flag is set still has
  a message of \<open>c\<close> in flight.
\<close>

definition claims_pending :: "nat \<Rightarrow> browser \<Rightarrow> bool" where
  "claims_pending c b =
     (\<forall>j < length (tabs b). j \<noteq> c \<and> isLastActiveTab (tabs b ! j)
        \<longrightarrow> (c, j, JStr ''active'') \<in> set (in_flight b))"

subsection \<open>Example data\<close>

text \<open>Concrete stores and events, on which the theorems below are instantiated.\<close>

definition mk_channel :: "string \<Rightarrow> json \<Rightarrow> int option \<Rightarrow> channel" where
  "mk_channel i t n =
     \<lparr>ch_id = i, ch_type = t, unread_count = n, last_message_at = None, ch_rest = []\<rparr>"

text \<open>
  A signed-in user \<open>u1\<close> whose session expires at second 2000, looking at chat \<open>c1\<close> in a
  visible tab, with two channels in the list and a connected socket \<open>s1\<close>.
\<close>

definition stores0 :: stores where
  "stores0 =
     \<lparr>user = Some \<lparr>user_id = ''u1'', expires_at = Some 2000\<rparr>,
      token = Some ''tok'',
      href = ''/c/c1'',
      pathname = ''/c/c1'',
      visible = True,
      isLastActiveTab = True,
      channels = Some [mk_channel ''g1'' JNull (Some 2), mk_channel ''d1'' (JStr ''dm'') None],
      channelId = None,
      chatId = ''c1'',
      temporaryChatEnabled = False,
      currentChatPage = 3,
      chats = JArr [JStr ''old chat''],
      tags = JArr [JStr ''old tag''],
      settings = \<lparr>notificationEnabled = False, notificationSoundAlways = False,
                  settings_toolServers =
                    Some [\<lparr>ts_url = Some ''https://a'', ts_auth_type = Some ''bearer'',
                            ts_key = JStr ''key-a''\<rparr>,
                          \<lparr>ts_url = Some ''https://b'', ts_auth_type = Some ''session'',
                            ts_key = JStr ''key-b''\<rparr>],
                  directConnections =
                    Some \<lparr>OPENAI_API_BASE_URLS = Some [''https://llm''],
                          OPENAI_API_KEYS = Some [''sk''],
                          OPENAI_API_CONFIGS = Some [\<lparr>prefix_id = Some ''p''\<rparr>]\<rparr>\<rparr>,
      toolServers = None,
      socket = Some \<lparr>socket_id = Some ''s1''\<rparr>\<rparr>"

text \<open>A message by user \<open>u2\<close> in channel \<open>g1\<close>, created at time 500.\<close>

definition channel_event0 :: channel_event where
  "channel_event0 =
     \<lparr>ev_type = Some ''message'', ev_channel_id = ''g1'', ev_author = Some ''u2'',
      ev_created_at = Some 500, ev_channel_type = JNull, ev_channel_name = Some ''general'',
      ev_sender_name = Some ''Bo'', ev_sender_id = Some ''u2'', ev_content = JStr ''hi''\<rparr>"

text \<open>The payload of a streaming completion request of this connection, on channel \<open>ch\<close>.\<close>

definition chat_data0 :: chat_data where
  "chat_data0 =
     \<lparr>d_done = JUndefined, d_title = None, d_content = JUndefined, d_session_id = JStr ''s1'',
      d_id = ''1'', d_code = ''print(1)'', d_server_url = Some ''https://b'',
      d_name = JStr ''tool'', d_params = JObj [], d_channel = ''ch'',
      d_form_data = \<lparr>fd_model = ''p.m'', fd_stream = True, fd_rest = JObj []\<rparr>,
      d_urlIdx = Some 0\<rparr>"

text \<open>A response whose body delivers one chunk of two lines and then fails.\<close>

definition response0 :: response where
  "response0 =
     \<lparr>ok = True, json_body = Resolves JNull,
      chunks = [[CHR ''a'', CHR 0x0A, CHR '' '', CHR 0x0A, CHR ''b'']],
      ending = ReadFails (JStr ''reset'')\<rparr>"

definition chat_env0 :: chat_env where
  "chat_env0 =
     \<lparr>host_focused = None, chat_list = Rejects (JStr ''offline''),
      all_tags = Rejects (JStr ''offline''), tool_call = Resolves (JObj [(''n'', JBig 7)]),
      completion = Resolves (Some response0)\<rparr>"


section \<open>The order of the channel list\<close>

lemma type_index_eq:
  "type_index c =
     (if ch_type c = JStr [] then 0 else if ch_type c = JNull then 1
      else if ch_type c = JStr ''group'' then 2 else if ch_type c = JStr ''dm'' then 3 else - 1)"
  by (simp add: type_index_def indexOf_def type_priority_def)

text \<open>With this comparator the sort is the library's stable sort by \<open>type_index\<close>.\<close>

lemma insert_by_channel_cmp: "insert_by channel_cmp x ys = insort_key type_index x ys"
  by (induction ys) (simp_all add: channel_cmp_def)

lemma sort_channels_sort_key: "sort_channels res = sort_key type_index res"
  by (induction res) (simp_all add: sort_channels_def js_sort_def insert_by_channel_cmp)

lemma insort_key_map_same:
  assumes "\<And>c. f (g c) = f c"
  shows "insort_key f (g x) (map g ys) = map g (insort_key f x ys)"
  using assms by (induction ys) simp_all

lemma sort_key_map_same:
  assumes "\<And>c. f (g c) = f c"
  shows "sort_key f (map g xs) = map g (sort_key f xs)"
  using assms by (induction xs) (simp_all add: insort_key_map_same)

lemma sorted_positions:
  assumes "sorted (map f xs)" "i < length xs" "j < length xs" "f (xs ! i) < f (xs ! j)"
  shows "i < j"
proof (rule ccontr)
  assume "\<not> i < j"
  then have "j \<le> i" by simp
  with assms(1,2) have "map f xs ! j \<le> map f xs ! i"
    by (simp add: sorted_nth_mono del: nth_map)
  with assms show False by simp
qed

lemma refetch_sets_sorted:
  "channels (refetch_channels (Resolves (Some res)) st) = Some (sort_channels res)"
  by (simp add: refetch_channels_def)

lemma handler_fetch_sorted:
  "Request (GetChannels (token st)) \<in> set (snd (channelEventHandler (Resolves (Some res)) ev st))
   \<Longrightarrow> channels (fst (channelEventHandler (Resolves (Some res)) ev st)) = Some (sort_channels res)"
  by (auto simp: channelEventHandler_def refetch_channels_def channel_notifications_def Let_def
      split: option.splits if_splits)

text \<open>
  Claim C3. A re-fetch that yields a list \<open>res\<close> stores \<open>sort_channels res\<close>, at both call
  sites of the handler. That list is a rearrangement of \<open>res\<close>, ascending in the index of the
  channel's type in \<^verbatim>\<open>['', null, 'group', 'dm']\<close>; channels of equal index keep the order they
  were fetched in; the order depends on no property but the type (changing the other
  properties of the channels changes nothing in their arrangement); and no \<^verbatim>\<open>dm\<close> channel
  stands before a \<^verbatim>\<open>group\<close> channel.
\<close>

theorem channel_list_sorted_by_type_priority:
  "channels (refetch_channels (Resolves (Some res)) st) = Some (sort_channels res)
   \<and> (\<forall>ev. Request (GetChannels (token st))
               \<in> set (snd (channelEventHandler (Resolves (Some res)) ev st))
         \<longrightarrow> channels (fst (channelEventHandler (Resolves (Some res)) ev st))
               = Some (sort_channels res))
   \<and> mset (sort_channels res) = mset res
   \<and> sorted (map (\<lambda>c. indexOf [JStr [], JNull, JStr ''group'', JStr ''dm''] (ch_type c))
               (sort_channels res))
   \<and> (\<forall>k. filter (\<lambda>c. type_index c = k) (sort_channels res)
            = filter (\<lambda>c. type_index c = k) res)
   \<and> (\<forall>g. (\<forall>c. ch_type (g c) = ch_type c)
         \<longrightarrow> sort_channels (map g res) = map g (sort_channels res))
   \<and> (\<forall>i j. i < j \<and> j < length (sort_channels res)
         \<longrightarrow> \<not> (ch_type (sort_channels res ! i) = JStr ''dm''
                \<and> ch_type (sort_channels res ! j) = JStr ''group''))"
proof -
  let ?out = "sort_channels res"
  have srt: "sorted (map type_index ?out)"
    by (simp add: sort_channels_sort_key)
  have idx: "(\<lambda>c. indexOf [JStr [], JNull, JStr ''group'', JStr ''dm''] (ch_type c)) = type_index"
    by (rule ext) (simp add: type_index_def type_priority_def)
  have stable: "\<forall>k. filter (\<lambda>c. type_index c = k) ?out = filter (\<lambda>c. type_index c = k) res"
    by (simp add: sort_channels_sort_key sort_key_stable)
  have solely: "\<forall>g. (\<forall>c. ch_type (g c) = ch_type c) \<longrightarrow> sort_channels (map g res) = map g ?out"
  proof (intro allI impI)
    fix g :: "channel \<Rightarrow> channel"
    assume "\<forall>c. ch_type (g c) = ch_type c"
    then have "\<And>c. type_index (g c) = type_index c"
      by (simp add: type_index_def)
    then show "sort_channels (map g res) = map g ?out"
      by (simp add: sort_channels_sort_key sort_key_map_same)
  qed
  have dm: "\<forall>i j. i < j \<and> j < length ?out \<longrightarrow>
          \<not> (ch_type (?out ! i) = JStr ''dm'' \<and> ch_type (?out ! j) = JStr ''group'')"
  proof (intro allI impI notI)
    fix i j
    assume ij: "i < j \<and> j < length ?out"
      and ty: "ch_type (?out ! i) = JStr ''dm'' \<and> ch_type (?out ! j) = JStr ''group''"
    then have "type_index (?out ! j) < type_index (?out ! i)"
      by (simp add: type_index_eq)
    with srt ij have "j < i"
      using sorted_positions[of type_index ?out j i] by simp
    with ij show False by simp
  qed
  have perm: "mset ?out = mset res"
    by (simp add: sort_channels_sort_key)
  show ?thesis
    using srt stable solely dm perm handler_fetch_sorted[of st res]
    by (simp add: refetch_sets_sorted idx)
qed

text \<open>
  The theorem at a fetched list of a \<^verbatim>\<open>dm\<close> channel followed by a \<^verbatim>\<open>group\<close> channel, on a
  \<^verbatim>\<open>channel:created\<close> event: the handler stores the two in the other order, also when both
  carry unread counts.
\<close>

theorem channel_list_sorted_by_type_priority_witness:
  "Request (GetChannels (token stores0))
     \<in> set (snd (channelEventHandler
                   (Resolves (Some [mk_channel ''d'' (JStr ''dm'') None,
                                    mk_channel ''g'' (JStr ''group'') None]))
                   (channel_event0\<lparr>ev_type := Some ''channel:created''\<rparr>) stores0))
   \<and> channels (fst (channelEventHandler
                   (Resolves (Some [mk_channel ''d'' (JStr ''dm'') None,
                                    mk_channel ''g'' (JStr ''group'') None]))
                   (channel_event0\<lparr>ev_type := Some ''channel:created''\<rparr>) stores0))
       = Some [mk_channel ''g'' (JStr ''group'') None, mk_channel ''d'' (JStr ''dm'') None]
   \<and> (0::nat) < 1
   \<and> 1 < length (sort_channels [mk_channel ''d'' (JStr ''dm'') None,
                                 mk_channel ''g'' (JStr ''group'') None])
   \<and> \<not> (ch_type (sort_channels [mk_channel ''d'' (JStr ''dm'') None,
                                 mk_channel ''g'' (JStr ''group'') None] ! 0) = JStr ''dm''
        \<and> ch_type (sort_channels [mk_channel ''d'' (JStr ''dm'') None,
                                   mk_channel ''g'' (JStr ''group'') None] ! 1) = JStr ''group'')
   \<and> sort_channels (map (\<lambda>c. c\<lparr>unread_count := Some 7\<rparr>)
                         [mk_channel ''d'' (JStr ''dm'') None,
                          mk_channel ''g'' (JStr ''group'') None])
       = map (\<lambda>c. c\<lparr>unread_count := Some 7\<rparr>)
           [mk_channel ''g'' (JStr ''group'') None, mk_channel ''d'' (JStr ''dm'') None]"
  using channel_list_sorted_by_type_priority
          [of "[mk_channel ''d'' (JStr ''dm'') None, mk_channel ''g'' (JStr ''group'') None]"
              stores0]
  by (simp add: sort_channels_def js_sort_def channel_cmp_def type_index_eq mk_channel_def
        channelEventHandler_def channel_event0_def refetch_channels_def)

text \<open>
  Claim C10. A channel whose type is none of \<^verbatim>\<open>''\<close>, \<^verbatim>\<open>null\<close>, \<^verbatim>\<open>'group'\<close>, \<^verbatim>\<open>'dm'\<close> has
  index \<open>-1\<close>, the comparator puts it before every channel whose type is in the list, and in
  the sorted list it stands at a smaller position than every such channel, those of type
  \<^verbatim>\<open>''\<close> and \<^verbatim>\<open>null\<close> included.
\<close>

theorem unlisted_type_sorts_first:
  "(ch_type c \<notin> set type_priority \<longrightarrow> type_index c = - 1)
   \<and> (\<forall>a b. ch_type a \<notin> set type_priority \<and> ch_type b \<in> set type_priority
         \<longrightarrow> channel_cmp a b < 0)
   \<and> (\<forall>i j. i < length (sort_channels res) \<and> j < length (sort_channels res)
            \<and> ch_type (sort_channels res ! i) \<notin> set type_priority
            \<and> ch_type (sort_channels res ! j) \<in> set type_priority
         \<longrightarrow> i < j)"
proof -
  let ?out = "sort_channels res"
  have unlisted: "\<And>a. ch_type a \<notin> set type_priority \<Longrightarrow> type_index a = - 1"
    by (simp add: type_index_eq type_priority_def)
  have listed: "\<And>b. ch_type b \<in> set type_priority \<Longrightarrow> 0 \<le> type_index b"
    by (auto simp add: type_index_eq type_priority_def)
  have cmp: "\<forall>a b. ch_type a \<notin> set type_priority \<and> ch_type b \<in> set type_priority
         \<longrightarrow> channel_cmp a b < 0"
    using unlisted listed by (fastforce simp add: channel_cmp_def)
  have srt: "sorted (map type_index ?out)"
    by (simp add: sort_channels_sort_key)
  have pos: "\<forall>i j. i < length ?out \<and> j < length ?out
            \<and> ch_type (?out ! i) \<notin> set type_priority \<and> ch_type (?out ! j) \<in> set type_priority
         \<longrightarrow> i < j"
  proof (intro allI impI)
    fix i j
    assume h: "i < length ?out \<and> j < length ?out
            \<and> ch_type (?out ! i) \<notin> set type_priority \<and> ch_type (?out ! j) \<in> set type_priority"
    then have "type_index (?out ! i) < type_index (?out ! j)"
      using unlisted[of "?out ! i"] listed[of "?out ! j"] by simp
    with srt h show "i < j"
      using sorted_positions[of type_index ?out i j] by simp
  qed
  show ?thesis using unlisted cmp pos by simp
qed

text \<open>
  The theorem at a fetched list in which a channel of the unlisted type \<^verbatim>\<open>'voice'\<close> comes
  last, after channels of type \<^verbatim>\<open>''\<close> and \<^verbatim>\<open>null\<close>: it is sorted to the front.
\<close>

theorem unlisted_type_sorts_first_witness:
  "ch_type (mk_channel ''v'' (JStr ''voice'') None) \<notin> set type_priority
   \<and> ch_type (mk_channel ''e'' (JStr []) None) \<in> set type_priority
   \<and> type_index (mk_channel ''v'' (JStr ''voice'') None) = - 1
   \<and> channel_cmp (mk_channel ''v'' (JStr ''voice'') None) (mk_channel ''e'' (JStr []) None) < 0
   \<and> sort_channels [mk_channel ''e'' (JStr []) None, mk_channel ''n'' JNull None,
                     mk_channel ''v'' (JStr ''voice'') None]
       = [mk_channel ''v'' (JStr ''voice'') None, mk_channel ''e'' (JStr []) None,
          mk_channel ''n'' JNull None]
   \<and> (0::nat) < 1"
  using unlisted_type_sorts_first
          [of "mk_channel ''v'' (JStr ''voice'') None"
              "[mk_channel ''e'' (JStr []) None, mk_channel ''n'' JNull None,
                mk_channel ''v'' (JStr ''voice'') None]"]
  by (simp add: sort_channels_def js_sort_def channel_cmp_def type_index_eq mk_channel_def
        type_priority_def)

section \<open>Channel events\<close>

lemma find_channel_iff:
  "(find (\<lambda>ch. ch_id ch = k) chs \<noteq> None) = (\<exists>ch \<in> set chs. ch_id ch = k)"
  by (auto simp: find_None_iff)

lemma no_request_in_notifications: "Request c \<notin> set (channel_notifications ev st)"
  by (simp add: channel_notifications_def Let_def)

lemma handler_known_channel:
  assumes "channel_gate ev st" "ev_type ev \<noteq> Some ''typing''" "ev_type ev \<noteq> Some ''channel:created''"
    and "channels st = Some chs" "\<exists>ch \<in> set chs. ch_id ch = ev_channel_id ev"
    and "channelId st \<noteq> Some (ev_channel_id ev)"
  shows "channelEventHandler fetched ev st =
           (st\<lparr>channels := Some (map (bump_channel ev) chs)\<rparr>,
            if ev_type ev = Some ''message''
            then channel_notifications ev (st\<lparr>channels := Some (map (bump_channel ev) chs)\<rparr>) else [])"
proof -
  have "find (\<lambda>ch. ch_id ch = ev_channel_id ev) chs \<noteq> None"
    using assms(5) by (simp only: find_channel_iff)
  with assms show ?thesis by (simp add: channelEventHandler_def)
qed

lemma handler_unknown_channel:
  assumes "channel_gate ev st" "ev_type ev \<noteq> Some ''typing''" "ev_type ev \<noteq> Some ''channel:created''"
    and "channels st = Some chs"
    and "\<not> ((\<exists>ch \<in> set chs. ch_id ch = ev_channel_id ev) \<and> channelId st \<noteq> Some (ev_channel_id ev))"
  shows "channelEventHandler fetched ev st =
           (refetch_channels fetched st,
            Request (GetChannels (token st)) #
            (if ev_type ev = Some ''message''
             then channel_notifications ev (refetch_channels fetched st) else []))"
proof -
  have "\<not> (find (\<lambda>ch. ch_id ch = ev_channel_id ev) chs \<noteq> None
           \<and> channelId st \<noteq> Some (ev_channel_id ev))"
    using assms(5) by (auto simp: find_None_iff)
  with assms(1-4) show ?thesis by (auto simp add: channelEventHandler_def)
qed

lemma handler_no_list:
  assumes "channel_gate ev st" "ev_type ev \<noteq> Some ''typing''" "ev_type ev \<noteq> Some ''channel:created''"
    and "channels st = None"
  shows "channelEventHandler fetched ev st =
           (st, if ev_type ev = Some ''message'' then channel_notifications ev st else [])"
  using assms by (simp add: channelEventHandler_def)

lemma refetch_channels_cases:
  "refetch_channels fetched st =
     (case fetched of
        Resolves (Some res) \<Rightarrow> st\<lparr>channels := Some (sort_channels res)\<rparr>
      | Resolves None \<Rightarrow> st
      | Rejects e \<Rightarrow> st)"
  by (simp add: refetch_channels_def split: outcome.splits option.splits)

text \<open>
  Claim C4, as amended. For a channel event that passes the gate and is neither
  \<^verbatim>\<open>typing\<close> nor \<^verbatim>\<open>channel:created\<close>, with a local channel list: if the list holds a channel
  with the event's channel id and that id is not the one in \<^verbatim>\<open>$channelId\<close>, the list is
  replaced by a copy, in the same order, in which every channel with that id has its
  \<^verbatim>\<open>unread_count\<close> incremented and its \<^verbatim>\<open>last_message_at\<close> set to the event's time when the
  event is a \<^verbatim>\<open>message\<close>, and is the same channel for every other event type; all other
  channels are unchanged and nothing is fetched. Otherwise the channels are fetched, and
  the list is replaced by the sorted result when the fetch yields one. Without a local
  list the stores stay as they are and nothing is fetched.
\<close>

theorem channel_event_bumps_or_refetches:
  assumes "channel_gate ev st"
    and "ev_type ev \<noteq> Some ''typing''" and "ev_type ev \<noteq> Some ''channel:created''"
  shows "(case channels st of
            None \<Rightarrow>
              fst (channelEventHandler fetched ev st) = st
              \<and> (\<forall>c. Request c \<notin> set (snd (channelEventHandler fetched ev st)))
          | Some chs \<Rightarrow>
              if ev_channel_id ev \<in> set (map ch_id chs) \<and> channelId st \<noteq> Some (ev_channel_id ev)
              then fst (channelEventHandler fetched ev st)
                     = st\<lparr>channels := Some (map
                          (\<lambda>ch. if ch_id ch = ev_channel_id ev \<and> ev_type ev = Some ''message''
                                then ch\<lparr>unread_count :=
                                          Some ((case unread_count ch of None \<Rightarrow> 0 | Some n \<Rightarrow> n) + 1),
                                        last_message_at := ev_created_at ev\<rparr>
                                else ch) chs)\<rparr>
                   \<and> (\<forall>c. Request c \<notin> set (snd (channelEventHandler fetched ev st)))
              else fst (channelEventHandler fetched ev st)
                     = (case fetched of
                          Resolves (Some res) \<Rightarrow> st\<lparr>channels := Some (sort_channels res)\<rparr>
                        | Resolves None \<Rightarrow> st
                        | Rejects e \<Rightarrow> st)
                   \<and> Request (GetChannels (token st))
                       \<in> set (snd (channelEventHandler fetched ev st)))"
proof (cases "channels st")
  case None
  with assms show ?thesis
    by (simp add: handler_no_list no_request_in_notifications)
next
  case (Some chs)
  show ?thesis
  proof (cases "ev_channel_id ev \<in> set (map ch_id chs) \<and> channelId st \<noteq> Some (ev_channel_id ev)")
    case True
    then have ex: "\<exists>ch \<in> set chs. ch_id ch = ev_channel_id ev" by auto
    have bump: "bump_channel ev =
        (\<lambda>ch. if ch_id ch = ev_channel_id ev \<and> ev_type ev = Some ''message''
              then ch\<lparr>unread_count := Some ((case unread_count ch of None \<Rightarrow> 0 | Some n \<Rightarrow> n) + 1),
                      last_message_at := ev_created_at ev\<rparr>
              else ch)"
      by (rule ext) (simp add: bump_channel_def)
    from handler_known_channel[OF assms Some ex] True Some bump show ?thesis
      by (simp add: no_request_in_notifications)
  next
    case False
    then have nex: "\<not> ((\<exists>ch \<in> set chs. ch_id ch = ev_channel_id ev)
                       \<and> channelId st \<noteq> Some (ev_channel_id ev))"
      by (auto simp: image_iff)
    have "channelEventHandler fetched ev st =
           (refetch_channels fetched st,
            Request (GetChannels (token st)) #
            (if ev_type ev = Some ''message''
             then channel_notifications ev (refetch_channels fetched st) else []))"
      by (rule handler_unknown_channel[OF assms Some nex])
    with False Some show ?thesis
      by (simp only: refetch_channels_cases option.case if_not_P fst_conv snd_conv) simp
  qed
qed


text \<open>
  The theorem at \<open>stores0\<close>: a message in the listed channel \<open>g1\<close> takes its count from 2
  to 3 and sets its time to 500, while a message in the unlisted channel \<open>zz\<close> fetches the
  channels and stores them sorted.
\<close>

theorem channel_event_bumps_or_refetches_witness:
  "channel_gate channel_event0 stores0
   \<and> ev_type channel_event0 \<noteq> Some ''typing''
   \<and> ev_type channel_event0 \<noteq> Some ''channel:created''
   \<and> channelEventHandler (Rejects JNull) channel_event0 stores0
       = (stores0\<lparr>channels :=
             Some [\<lparr>ch_id = ''g1'', ch_type = JNull, unread_count = Some 3,
                    last_message_at = Some 500, ch_rest = []\<rparr>,
                   mk_channel ''d1'' (JStr ''dm'') None]\<rparr>,
          [Toast (JStr ''Bo (#general)'') (JStr ''hi'') ''/channels/g1''])
   \<and> channel_gate (channel_event0\<lparr>ev_channel_id := ''zz''\<rparr>) stores0
   \<and> channelEventHandler
         (Resolves (Some [mk_channel ''d1'' (JStr ''dm'') None, mk_channel ''zz'' JNull None]))
         (channel_event0\<lparr>ev_channel_id := ''zz''\<rparr>) stores0
       = (stores0\<lparr>channels :=
             Some [mk_channel ''zz'' JNull None, mk_channel ''d1'' (JStr ''dm'') None]\<rparr>,
          [Request (GetChannels (Some ''tok'')),
           Toast (JStr ''Bo (#general)'') (JStr ''hi'') ''/channels/zz''])"
  using channel_event_bumps_or_refetches[of channel_event0 stores0 "Rejects JNull"]
        channel_event_bumps_or_refetches[of "channel_event0\<lparr>ev_channel_id := ''zz''\<rparr>" stores0
          "Resolves (Some [mk_channel ''d1'' (JStr ''dm'') None, mk_channel ''zz'' JNull None])"]
  by (simp add: channel_gate_def channel_event0_def stores0_def channelEventHandler_def
        bump_channel_def mk_channel_def channel_notifications_def refetch_channels_def
        sort_channels_def js_sort_def channel_cmp_def type_index_def indexOf_def
        type_priority_def Let_def)

text \<open>
  Claim C4 as stated fails on three inputs, each an event that passes the gate, is neither
  \<^verbatim>\<open>typing\<close> nor \<^verbatim>\<open>channel:created\<close>, and names channel \<open>g1\<close>. (1) A \<^verbatim>\<open>message:update\<close>
  event while \<open>g1\<close> is in the list: nothing is incremented and nothing is fetched. (2) A
  \<^verbatim>\<open>message\<close> event while \<open>g1\<close> is in the list, is the channel in \<^verbatim>\<open>$channelId\<close>, and the tab
  is hidden: the channels are fetched instead, and with the fetch failing the count of \<open>g1\<close>
  stays 2. (3) A \<^verbatim>\<open>message\<close> event while there is no list at all: nothing is fetched.
\<close>

theorem channel_event_claim_counterexample:
  "channel_gate (channel_event0\<lparr>ev_type := Some ''message:update''\<rparr>) stores0
   \<and> channels stores0 = Some [mk_channel ''g1'' JNull (Some 2), mk_channel ''d1'' (JStr ''dm'') None]
   \<and> ev_channel_id channel_event0 = ch_id (mk_channel ''g1'' JNull (Some 2))
   \<and> channelEventHandler (Resolves (Some []))
         (channel_event0\<lparr>ev_type := Some ''message:update''\<rparr>) stores0
       = (stores0, [])
   \<and> channel_gate channel_event0 (stores0\<lparr>channelId := Some ''g1'', visible := False\<rparr>)
   \<and> channelEventHandler (Rejects JNull) channel_event0
         (stores0\<lparr>channelId := Some ''g1'', visible := False\<rparr>)
       = (stores0\<lparr>channelId := Some ''g1'', visible := False\<rparr>,
          [Request (GetChannels (Some ''tok'')),
           Toast (JStr ''Bo (#general)'') (JStr ''hi'') ''/channels/g1''])
   \<and> channel_gate channel_event0 (stores0\<lparr>channels := None\<rparr>)
   \<and> channelEventHandler (Resolves (Some [])) channel_event0 (stores0\<lparr>channels := None\<rparr>)
       = (stores0\<lparr>channels := None\<rparr>,
          [Toast (JStr ''Bo (#general)'') (JStr ''hi'') ''/channels/g1''])"
  by (simp add: channel_gate_def channel_event0_def stores0_def channelEventHandler_def
        bump_channel_def mk_channel_def channel_notifications_def refetch_channels_def Let_def)

section \<open>The sandbox runner\<close>


















section \<open>The completion proxy\<close>

lemma try_catch_finally_last:
  assumes "fst fin \<noteq> []"
  shows "fst (try_catch_finally body handler fin) \<noteq> []"
    and "last (fst (try_catch_finally body handler fin)) = last (fst fin)"
  using assms by (simp_all add: try_catch_finally_def Let_def split: option.splits)

lemma seq_effects: "set (fst (seq a b)) \<subseteq> set (fst a) \<union> set (fst b)"
  by (auto simp: seq_def split: option.splits)

lemma read_loop_no_marker:
  "Emit c (JObj kv) \<notin> set (fst (read_loop st channel cs fin))"
proof (induction cs)
  case Nil
  then show ?case by (cases fin) simp_all
next
  case (Cons chunk cs)
  have "Emit c (JObj kv) \<notin> set (concat (map (\<lambda>line. socket_emit st channel (JStr line))
                      (filter not_blank (split_lines chunk))))"
    by (auto simp: socket_emit_def split: option.splits)
  with Cons show ?case
    using seq_effects[of "(concat (map (\<lambda>line. socket_emit st channel (JStr line))
                      (filter not_blank (split_lines chunk))), None)" "read_loop st channel cs fin"]
    by auto
qed

lemma call_cb_no_marker: "Emit c v \<notin> set (fst (call_cb has_cb w))"
  by (simp add: call_cb_def)

lemma relay_response_no_marker:
  "Emit c (JObj kv) \<notin> set (fst (relay_response has_cb st channel fd res))"
  using seq_effects[of "call_cb has_cb (JObj [(''status'', JBool True)])"
                       "read_loop st channel (chunks res) (ending res)"]
        read_loop_no_marker[of c kv st channel "chunks res" "ending res"]
        call_cb_no_marker[of c "JObj kv" has_cb]
  by (auto simp: relay_response_def split: outcome.splits)

lemma completion_body_no_marker:
  "Emit c (JObj kv) \<notin> set (fst (completion_body completed has_cb d st))"
proof -
  have r: "\<And>fd res. Emit c (JObj kv) \<notin> set (fst (relay_response has_cb st (d_channel d) fd res))"
    by (rule relay_response_no_marker)
  have s: "\<And>q fd. Emit c (JObj kv) \<notin> set (fst (seq ([Request q], None)
                     (case completed of
                        Rejects e \<Rightarrow> ([], Some e)
                      | Resolves None \<Rightarrow> ([], None)
                      | Resolves (Some res) \<Rightarrow> relay_response has_cb st (d_channel d) fd res)))"
    using r by (auto simp: seq_def split: outcome.splits option.splits)
  show ?thesis
    unfolding completion_body_def Let_def
    by (simp split: sum.splits option.splits add: s)
qed


lemma request_chat_completion_marker:
  assumes "socket st \<noteq> None"
  shows "fst (request_chat_completion completed has_cb d st) \<noteq> []"
    and "last (fst (request_chat_completion completed has_cb d st))
           = Emit (d_channel d) (JObj [(''done'', JBool True)])"
    and "filter (\<lambda>e. e = Emit (d_channel d) (JObj [(''done'', JBool True)]))
           (fst (request_chat_completion completed has_cb d st))
           = [Emit (d_channel d) (JObj [(''done'', JBool True)])]"
proof -
  let ?m = "Emit (d_channel d) (JObj [(''done'', JBool True)])"
  let ?body = "completion_body completed has_cb d st"
  have fin: "socket_emit st (d_channel d) (JObj [(''done'', JBool True)]) = [?m]"
    using assms by (auto simp: socket_emit_def)
  have b: "?m \<notin> set (fst ?body)"
    by (rule completion_body_no_marker)
  have h: "\<And>e. ?m \<notin> set (fst (call_cb has_cb e))"
    by (rule call_cb_no_marker)
  show "fst (request_chat_completion completed has_cb d st) \<noteq> []"
    and "last (fst (request_chat_completion completed has_cb d st)) = ?m"
    by (simp_all add: request_chat_completion_def fin try_catch_finally_last)
  have "filter (\<lambda>e. e = ?m) (fst ?body) = []"
    using b by (auto simp add: filter_empty_conv)
  moreover have "\<And>e. filter (\<lambda>e. e = ?m) (fst (call_cb has_cb e)) = []"
    using h by (auto simp add: filter_empty_conv)
  ultimately show "filter (\<lambda>e. e = ?m) (fst (request_chat_completion completed has_cb d st)) = [?m]"
    by (simp add: request_chat_completion_def fin try_catch_finally_def Let_def
          split: option.splits)
qed

text \<open>
  Claim C2, as amended. The handler treats a \<^verbatim>\<open>request:chat:completion\<close> event as a
  command only in the \<^verbatim>\<open>else\<close> of its first test: the event is for the open chat (or
  temporary chats are enabled), the tab counts as visible, and the session id of the
  payload is the id of the socket. Such a command, handled while the store holds the
  socket, ends with the marker \<^verbatim>\<open>{ done: true }\<close> on the event's channel, emitted once and
  after every other effect of the handler. This holds however the proxied call ends: it
  rejects, it yields no response or a response that is not ok, reading the answer fails,
  or the stream fails after any number of chunks; streaming requests are the case
  \<open>fd_stream\<close>. It holds with and without an acknowledgment callback. (The body of a
  response is a finite list of chunks here: a stream that never ends never finishes the
  handler.) An event of this type for which the first test holds, or whose session id is
  not the socket's, is dropped: nothing is proxied, acknowledged or emitted.
\<close>

theorem done_marker_emitted_in_command_branch:
  assumes "ce_type ev = Some ''request:chat:completion''"
  shows "(\<not> chat_notify_gate env ev st \<and> own_session ev st \<and> socket st \<noteq> None
            \<and> ce_data ev = Some d \<longrightarrow>
            fst (snd (chatEventHandler env ev has_cb st)) \<noteq> []
            \<and> last (fst (snd (chatEventHandler env ev has_cb st)))
                = Emit (d_channel d) (JObj [(''done'', JBool True)])
            \<and> filter (\<lambda>e. e = Emit (d_channel d) (JObj [(''done'', JBool True)]))
                (fst (snd (chatEventHandler env ev has_cb st)))
                = [Emit (d_channel d) (JObj [(''done'', JBool True)])])
       \<and> (chat_notify_gate env ev st \<or> \<not> own_session ev st \<longrightarrow>
            chatEventHandler env ev has_cb st = (st, [], None))"
proof -
  have cmd: "\<not> chat_notify_gate env ev st \<and> own_session ev st \<and> ce_data ev = Some d \<longrightarrow>
      snd (chatEventHandler env ev has_cb st)
          = request_chat_completion (completion env) has_cb d st"
    using assms by (simp add: chatEventHandler_def)
  have idle: "chat_notify_gate env ev st \<or> \<not> own_session ev st \<longrightarrow>
            chatEventHandler env ev has_cb st = (st, [], None)"
    using assms by (auto simp add: chatEventHandler_def)
  show ?thesis
    using cmd idle
      request_chat_completion_marker[where st = st and completed = "completion env"
            and has_cb = has_cb and d = d]
    by auto
qed

text \<open>
  The theorem at a streaming request whose stream fails after a chunk of two lines: the
  lines are relayed, the error is acknowledged, and the marker comes last. The same
  request with the session id of another connection is dropped.
\<close>

theorem done_marker_emitted_in_command_branch_witness:
  "ce_type \<lparr>ce_chat_id = Some ''c1'', ce_type = Some ''request:chat:completion'',
            ce_data = Some chat_data0\<rparr> = Some ''request:chat:completion''
   \<and> socket stores0 \<noteq> None
   \<and> \<not> chat_notify_gate chat_env0
         \<lparr>ce_chat_id = Some ''c1'', ce_type = Some ''request:chat:completion'',
          ce_data = Some chat_data0\<rparr> stores0
   \<and> own_session
         \<lparr>ce_chat_id = Some ''c1'', ce_type = Some ''request:chat:completion'',
          ce_data = Some chat_data0\<rparr> stores0
   \<and> fd_stream (d_form_data chat_data0)
   \<and> snd (chatEventHandler chat_env0
         \<lparr>ce_chat_id = Some ''c1'', ce_type = Some ''request:chat:completion'',
          ce_data = Some chat_data0\<rparr> True stores0)
       = ([Request (ChatCompletion (JStr ''sk'') ''m'' (JStr ''https://llm'')),
           Ack (JObj [(''status'', JBool True)]),
           Emit ''ch'' (JStr ''a''), Emit ''ch'' (JStr ''b''),
           Ack (JStr ''reset''),
           Emit ''ch'' (JObj [(''done'', JBool True)])], None)
   \<and> \<not> own_session
         \<lparr>ce_chat_id = Some ''c1'', ce_type = Some ''request:chat:completion'',
          ce_data = Some (chat_data0\<lparr>d_session_id := JStr ''s2''\<rparr>)\<rparr> stores0
   \<and> chatEventHandler chat_env0
         \<lparr>ce_chat_id = Some ''c1'', ce_type = Some ''request:chat:completion'',
          ce_data = Some (chat_data0\<lparr>d_session_id := JStr ''s2''\<rparr>)\<rparr> True stores0
       = (stores0, [], None)"
  using done_marker_emitted_in_command_branch
          [where ev = "\<lparr>ce_chat_id = Some ''c1'', ce_type = Some ''request:chat:completion'',
                         ce_data = Some chat_data0\<rparr>"
             and env = chat_env0 and st = stores0 and d = chat_data0 and has_cb = True]
        done_marker_emitted_in_command_branch
          [where ev = "\<lparr>ce_chat_id = Some ''c1'', ce_type = Some ''request:chat:completion'',
                         ce_data = Some (chat_data0\<lparr>d_session_id := JStr ''s2''\<rparr>)\<rparr>"
             and env = chat_env0 and st = stores0 and d = chat_data0 and has_cb = True]
  by (simp add: chatEventHandler_def chat_notify_gate_def own_session_def stores0_def
        chat_env0_def chat_data0_def response0_def request_chat_completion_def
        try_catch_finally_def completion_body_def js_index_def relay_response_def seq_def
        call_cb_def socket_emit_def opt_str_def not_blank_def is_space_def Let_def)

text \<open>
  Claim C2 as stated fails for a streaming \<^verbatim>\<open>request:chat:completion\<close> event that carries
  the session id of this connection and arrives while the first test of the handler holds.
  (1) In a hidden tab, for the open chat: the event is taken into the notification branch,
  where its type matches nothing, and the handler ends without a request, an
  acknowledgment or a marker. (2) In a visible tab, for a chat other than the open one:
  the same.
\<close>

theorem done_marker_missing_counterexample:
  "fd_stream (d_form_data chat_data0)
   \<and> socket (stores0\<lparr>visible := False\<rparr>) = Some \<lparr>socket_id = Some ''s1''\<rparr>
   \<and> d_session_id chat_data0 = JStr ''s1''
   \<and> own_session
         \<lparr>ce_chat_id = Some ''c1'', ce_type = Some ''request:chat:completion'',
          ce_data = Some chat_data0\<rparr> (stores0\<lparr>visible := False\<rparr>)
   \<and> chatEventHandler chat_env0
         \<lparr>ce_chat_id = Some ''c1'', ce_type = Some ''request:chat:completion'',
          ce_data = Some chat_data0\<rparr> True (stores0\<lparr>visible := False\<rparr>)
       = (stores0\<lparr>visible := False\<rparr>, [], None)
   \<and> visible stores0
   \<and> own_session
         \<lparr>ce_chat_id = Some ''c2'', ce_type = Some ''request:chat:completion'',
          ce_data = Some chat_data0\<rparr> stores0
   \<and> chatEventHandler chat_env0
         \<lparr>ce_chat_id = Some ''c2'', ce_type = Some ''request:chat:completion'',
          ce_data = Some chat_data0\<rparr> True stores0
       = (stores0, [], None)"
  by (simp add: chatEventHandler_def chat_notify_gate_def own_session_def stores0_def
        chat_env0_def chat_data0_def opt_str_def Let_def)

section \<open>Re-fetches after chat events\<close>

text \<open>A failed fetch of the channels changes nothing, at both call sites.\<close>

lemma channel_refetch_swallows_failure:
  "refetch_channels (Rejects e) st = st"
  "refetch_channels (Resolves None) st = st"
  "channelEventHandler (Rejects e) ev st = channelEventHandler (Resolves None) ev st"
  "channels (fst (channelEventHandler (Rejects e) ev st)) \<noteq> channels st
     \<Longrightarrow> Request (GetChannels (token st)) \<notin> set (snd (channelEventHandler (Rejects e) ev st))"
  by (auto simp add: refetch_channels_def channelEventHandler_def channel_notifications_def Let_def
        split: option.splits if_splits)

text \<open>
  Claim C5 at a failing collaborator. A \<^verbatim>\<open>chat:title\<close> event for another chat while
  \<^verbatim>\<open>getChatList\<close> rejects: the handler has already set the page to 1, and its promise
  rejects with the collaborator's error. A \<^verbatim>\<open>chat:tags\<close> event while \<^verbatim>\<open>getAllTags\<close> rejects:
  the handler rejects likewise. Neither call has the \<^verbatim>\<open>.catch(() => null)\<close> of the channel
  fetches; and were the collaborators to resolve to \<^verbatim>\<open>null\<close> on failure, the handler would
  store \<^verbatim>\<open>null\<close> as the chat list and as the tags.
\<close>

theorem chat_refetch_failure_propagates:
  "chatEventHandler chat_env0
       \<lparr>ce_chat_id = Some ''c2'', ce_type = Some ''chat:title'', ce_data = None\<rparr> True stores0
     = (stores0\<lparr>currentChatPage := 1\<rparr>,
        [Request (GetChatList (Some ''tok'') 1)], Some (JStr ''offline''))
   \<and> chatEventHandler chat_env0
       \<lparr>ce_chat_id = Some ''c2'', ce_type = Some ''chat:tags'', ce_data = None\<rparr> True stores0
     = (stores0, [Request (GetAllTags (Some ''tok''))], Some (JStr ''offline''))
   \<and> chatEventHandler (chat_env0\<lparr>chat_list := Resolves JNull, all_tags := Resolves JNull\<rparr>)
       \<lparr>ce_chat_id = Some ''c2'', ce_type = Some ''chat:title'', ce_data = None\<rparr> True stores0
     = (stores0\<lparr>currentChatPage := 1, chats := JNull\<rparr>,
        [Request (GetChatList (Some ''tok'') 1)], None)
   \<and> chatEventHandler (chat_env0\<lparr>chat_list := Resolves JNull, all_tags := Resolves JNull\<rparr>)
       \<lparr>ce_chat_id = Some ''c2'', ce_type = Some ''chat:tags'', ce_data = None\<rparr> True stores0
     = (stores0\<lparr>tags := JNull\<rparr>, [Request (GetAllTags (Some ''tok''))], None)"
  by (simp add: chatEventHandler_def chat_notify_gate_def chat_env0_def stores0_def Let_def)

section \<open>The tool invoker\<close>

lemma find_tool_server_None_iff:
  "(find_tool_server d st = None)
     = (case settings_toolServers (settings st) of
          None \<Rightarrow> True
        | Some servers \<Rightarrow> d_server_url d \<notin> set (map ts_url servers))"
  by (force simp add: find_tool_server_def find_None_iff image_iff split: option.splits)

lemma find_tool_server_Some_iff:
  "(find_tool_server d st = Some ts)
     = (\<exists>servers. settings_toolServers (settings st) = Some servers
          \<and> find (\<lambda>server. ts_url server = d_server_url d) servers = Some ts)"
  by (simp add: find_tool_server_def split: option.splits)

lemma executeTool_not_found:
  assumes "find_tool_server d st = None"
  shows "executeTool called (Some d) has_cb st
           = (if has_cb then [Ack (JObj [(''error'', JStr ''Tool Server Not Found'')])] else [],
              None)"
  using assms by (simp add: executeTool_def guarded_cb_def)

lemma executeTool_found:
  assumes "find_tool_server d st = Some ts"
  shows "executeTool called (Some d) has_cb st
           = seq ([Request (ExecuteToolServer
                     (if ts_auth_type ts = Some ''bearer'' \<or> ts_auth_type ts = None then ts_key ts
                      else if ts_auth_type ts = Some ''session'' then opt_str (token st)
                      else JNull)
                     (ts_url ts) (d_name d) (d_params d) (find_tool_server_data d st))], None)
                 (case called of
                    Rejects e \<Rightarrow> ([], Some e)
                  | Resolves res \<Rightarrow> relay_result has_cb res)"
  using assms
  by (auto simp add: executeTool_def tool_server_token_def Let_def split: option.splits)

text \<open>
  Claim C6, for every payload object. When no server of \<^verbatim>\<open>$settings.toolServers\<close> has the
  requested URL (or there are no configured servers), the callback is called with exactly
  \<^verbatim>\<open>{ error: 'Tool Server Not Found' }\<close>, nothing else happens and nothing is thrown, however
  the collaborator would behave. When a server matches, the first effect is the forwarded
  call, with the server's own key as credential for the mode \<^verbatim>\<open>bearer\<close> (also the default
  when no mode is declared) and \<^verbatim>\<open>localStorage.token\<close> for the mode \<^verbatim>\<open>session\<close>; when the
  call resolves with a value, the callback receives the value as serialised and parsed.
\<close>

theorem tool_invoker_not_found_and_credential:
  "((case settings_toolServers (settings st) of
       None \<Rightarrow> True
     | Some servers \<Rightarrow> d_server_url d \<notin> set (map ts_url servers)) \<longrightarrow>
      executeTool called (Some d) True st
        = ([Ack (JObj [(''error'', JStr ''Tool Server Not Found'')])], None)
      \<and> executeTool called (Some d) False st = ([], None))
   \<and> (\<forall>servers ts.
         settings_toolServers (settings st) = Some servers
         \<and> find (\<lambda>server. ts_url server = d_server_url d) servers = Some ts \<longrightarrow>
         fst (executeTool called (Some d) has_cb st) \<noteq> []
         \<and> hd (fst (executeTool called (Some d) has_cb st))
             = Request (ExecuteToolServer
                 (if ts_auth_type ts = Some ''bearer'' \<or> ts_auth_type ts = None then ts_key ts
                  else if ts_auth_type ts = Some ''session'' then opt_str (token st)
                  else JNull)
                 (ts_url ts) (d_name d) (d_params d) (find_tool_server_data d st))
         \<and> (\<forall>res. called = Resolves res \<and> res \<noteq> JUndefined \<and> \<not> has_big res \<longrightarrow>
               executeTool called (Some d) True st
                 = ([Request (ExecuteToolServer
                       (if ts_auth_type ts = Some ''bearer'' \<or> ts_auth_type ts = None then ts_key ts
                        else if ts_auth_type ts = Some ''session'' then opt_str (token st)
                        else JNull)
                       (ts_url ts) (d_name d) (d_params d) (find_tool_server_data d st)),
                     Ack (roundtrip res)], None)))"
proof -
  have none: "(case settings_toolServers (settings st) of
       None \<Rightarrow> True
     | Some servers \<Rightarrow> d_server_url d \<notin> set (map ts_url servers)) \<longrightarrow>
      executeTool called (Some d) True st
        = ([Ack (JObj [(''error'', JStr ''Tool Server Not Found'')])], None)
      \<and> executeTool called (Some d) False st = ([], None)"
    by (simp add: find_tool_server_None_iff[symmetric] executeTool_not_found)
  have some: "\<And>servers ts.
         settings_toolServers (settings st) = Some servers
         \<and> find (\<lambda>server. ts_url server = d_server_url d) servers = Some ts \<Longrightarrow>
         find_tool_server d st = Some ts"
    by (auto simp add: find_tool_server_Some_iff)
  show ?thesis
    using none
    by (auto dest!: some simp add: executeTool_found seq_def relay_result_def
          split: outcome.splits)
qed

text \<open>
  The theorem at \<open>stores0\<close>: a URL that is not configured, the \<^verbatim>\<open>session\<close> server
  \<^verbatim>\<open>https://b\<close> and the \<^verbatim>\<open>bearer\<close> server \<^verbatim>\<open>https://a\<close>.
\<close>

theorem tool_invoker_not_found_and_credential_witness:
  "find_tool_server (chat_data0\<lparr>d_server_url := Some ''https://c''\<rparr>) stores0 = None
   \<and> executeTool (Rejects JNull) (Some (chat_data0\<lparr>d_server_url := Some ''https://c''\<rparr>)) True stores0
       = ([Ack (JObj [(''error'', JStr ''Tool Server Not Found'')])], None)
   \<and> find_tool_server chat_data0 stores0
       = Some \<lparr>ts_url = Some ''https://b'', ts_auth_type = Some ''session'', ts_key = JStr ''key-b''\<rparr>
   \<and> executeTool (Resolves (JObj [(''n'', JNum 7)])) (Some chat_data0) True stores0
       = ([Request (ExecuteToolServer (JStr ''tok'') (Some ''https://b'') (JStr ''tool'')
                      (JObj []) JUndefined),
           Ack (JObj [(''n'', JNum 7)])], None)
   \<and> find_tool_server (chat_data0\<lparr>d_server_url := Some ''https://a''\<rparr>) stores0
       = Some \<lparr>ts_url = Some ''https://a'', ts_auth_type = Some ''bearer'', ts_key = JStr ''key-a''\<rparr>
   \<and> executeTool (Resolves (JObj [(''n'', JNum 7)]))
         (Some (chat_data0\<lparr>d_server_url := Some ''https://a''\<rparr>)) True stores0
       = ([Request (ExecuteToolServer (JStr ''key-a'') (Some ''https://a'') (JStr ''tool'')
                      (JObj []) JUndefined),
           Ack (JObj [(''n'', JNum 7)])], None)"
  using tool_invoker_not_found_and_credential[of "chat_data0\<lparr>d_server_url := Some ''https://c''\<rparr>" stores0 "Rejects JNull" True]
        tool_invoker_not_found_and_credential[of chat_data0 stores0 "Resolves (JObj [(''n'', JNum 7)])" True]
        tool_invoker_not_found_and_credential[of "chat_data0\<lparr>d_server_url := Some ''https://a''\<rparr>" stores0
              "Resolves (JObj [(''n'', JNum 7)])" True]
  by (simp add: find_tool_server_def find_tool_server_data_def stores0_def chat_data0_def
        executeTool_def seq_def relay_result_def tool_server_token_def opt_str_def
        guarded_cb_def Let_def)

section \<open>The session guard\<close>




text \<open>
  Claim C9. For a session without an expiry (no user, or \<^verbatim>\<open>expires_at\<close> missing, \<^verbatim>\<open>null\<close> or
  0) the check changes nothing in the stores, makes no request and does not fail, at any
  time and however the collaborator would behave.
\<close>

theorem expiry_check_noop_without_expiry:
  assumes "user st = None \<or> (\<exists>u. user st = Some u \<and> (expires_at u = None \<or> expires_at u = Some 0))"
  shows "checkTokenExpiry now signed_out st = (st, [], None)"
  using assms by (auto simp add: checkTokenExpiry_def Let_def split: option.splits)

text \<open>The theorem at second 5000, for an expiry of 0, a missing expiry and no user.\<close>

theorem expiry_check_noop_without_expiry_witness:
  "user (stores0\<lparr>user := Some \<lparr>user_id = ''u1'', expires_at = Some 0\<rparr>\<rparr>)
     = Some \<lparr>user_id = ''u1'', expires_at = Some 0\<rparr>
   \<and> checkTokenExpiry 5000 (Resolves None)
         (stores0\<lparr>user := Some \<lparr>user_id = ''u1'', expires_at = Some 0\<rparr>\<rparr>)
       = (stores0\<lparr>user := Some \<lparr>user_id = ''u1'', expires_at = Some 0\<rparr>\<rparr>, [], None)
   \<and> checkTokenExpiry 5000 (Resolves None)
         (stores0\<lparr>user := Some \<lparr>user_id = ''u1'', expires_at = None\<rparr>\<rparr>)
       = (stores0\<lparr>user := Some \<lparr>user_id = ''u1'', expires_at = None\<rparr>\<rparr>, [], None)
   \<and> checkTokenExpiry 5000 (Resolves None) (stores0\<lparr>user := None\<rparr>)
       = (stores0\<lparr>user := None\<rparr>, [], None)"
  using expiry_check_noop_without_expiry[of "stores0\<lparr>user := Some \<lparr>user_id = ''u1'', expires_at = Some 0\<rparr>\<rparr>" 5000 "Resolves None"]
        expiry_check_noop_without_expiry[of "stores0\<lparr>user := Some \<lparr>user_id = ''u1'', expires_at = None\<rparr>\<rparr>" 5000 "Resolves None"]
        expiry_check_noop_without_expiry[of "stores0\<lparr>user := None\<rparr>" 5000 "Resolves None"]
  by simp

section \<open>The tab coordinator\<close>

lemma checkTokenExpiry_flag:
  "isLastActiveTab (fst (checkTokenExpiry now signed_out st)) = isLastActiveTab st"
  by (simp add: checkTokenExpiry_def Let_def split: option.splits outcome.splits)

lemma checkTokenExpiry_no_broadcast:
  "filter is_broadcast (fst (snd (checkTokenExpiry now signed_out st))) = []"
  by (simp add: checkTokenExpiry_def Let_def split: option.splits outcome.splits)

lemma handleVisibilityChange_visible:
  assumes "visible st"
  shows "isLastActiveTab (fst (handleVisibilityChange now signed_out st))"
    and "filter is_broadcast (fst (snd (handleVisibilityChange now signed_out st)))
           = [Broadcast (JStr ''active'')]"
    and "handleVisibilityChange now signed_out st
           = (fst (checkTokenExpiry now signed_out (st\<lparr>isLastActiveTab := True\<rparr>)),
              Broadcast (JStr ''active'')
                # fst (snd (checkTokenExpiry now signed_out (st\<lparr>isLastActiveTab := True\<rparr>))),
              snd (snd (checkTokenExpiry now signed_out (st\<lparr>isLastActiveTab := True\<rparr>))))"
  using assms
  by (simp_all add: handleVisibilityChange_def Let_def checkTokenExpiry_flag
        checkTokenExpiry_no_broadcast)

lemma handleVisibilityChange_hidden:
  "\<not> visible st \<Longrightarrow> handleVisibilityChange now signed_out st = (st, [], None)"
  by (simp add: handleVisibilityChange_def)

lemma bc_onmessage_active: "\<not> isLastActiveTab (bc_onmessage (JStr ''active'') st)"
  by (simp add: bc_onmessage_def)

lemma bc_onmessage_other: "m \<noteq> JStr ''active'' \<Longrightarrow> bc_onmessage m st = st"
  by (simp add: bc_onmessage_def)

lemma posted_active:
  "posted n i [Broadcast (JStr ''active'')]
     = map (\<lambda>j. (i, j, JStr ''active'')) (filter (\<lambda>j. j \<noteq> i) [0..<n])"
  by (simp add: posted_def)

lemma posted_filter: "posted n i fx = posted n i (filter is_broadcast fx)"
  by (simp add: posted_def)

lemma tab_step_length: "tab_step a b = Some b' \<Longrightarrow> length (tabs b') = length (tabs b)"
  by (cases a) (auto simp: Let_def split: if_splits)

lemma tab_steps_length: "tab_steps as b = Some b' \<Longrightarrow> length (tabs b') = length (tabs b)"
proof (induction as arbitrary: b)
  case Nil
  then show ?case by simp
next
  case (Cons a as)
  then show ?case by (auto split: option.splits dest: tab_step_length)
qed

lemma shown_establishes:
  assumes "tab_step (Shown i now signed_out) b = Some b'"
  shows "claims_pending i b'"
proof -
  from assms have i: "i < length (tabs b)" by (simp split: if_splits)
  let ?st = "(tabs b ! i)\<lparr>visible := True\<rparr>"
  let ?r = "handleVisibilityChange now signed_out ?st"
  have v: "visible ?st" by simp
  have p: "posted (length (tabs b)) i (fst (snd ?r))
             = map (\<lambda>j. (i, j, JStr ''active'')) (filter (\<lambda>j. j \<noteq> i) [0..<length (tabs b)])"
    using handleVisibilityChange_visible(2)[OF v, of now signed_out]
    by (subst posted_filter) (simp add: posted_active)
  from assms i have b': "b' = b\<lparr>tabs := (tabs b)[i := fst ?r],
                       in_flight := in_flight b @ posted (length (tabs b)) i (fst (snd ?r))\<rparr>"
    by (simp add: Let_def)
  show ?thesis
    unfolding claims_pending_def b' p by auto
qed

lemma shown_posts:
  assumes "tab_step (Shown i now signed_out) b = Some b'"
  shows "isLastActiveTab (tabs b' ! i)"
    and "\<forall>j < length (tabs b). j \<noteq> i \<longrightarrow> (i, j, JStr ''active'') \<in> set (in_flight b')"
proof -
  from assms have i: "i < length (tabs b)" by (simp split: if_splits)
  let ?st = "(tabs b ! i)\<lparr>visible := True\<rparr>"
  let ?r = "handleVisibilityChange now signed_out ?st"
  have v: "visible ?st" by simp
  have p: "posted (length (tabs b)) i (fst (snd ?r))
             = map (\<lambda>j. (i, j, JStr ''active'')) (filter (\<lambda>j. j \<noteq> i) [0..<length (tabs b)])"
    using handleVisibilityChange_visible(2)[OF v, of now signed_out]
    by (subst posted_filter) (simp add: posted_active)
  from assms i have b': "b' = b\<lparr>tabs := (tabs b)[i := fst ?r],
                       in_flight := in_flight b @ posted (length (tabs b)) i (fst (snd ?r))\<rparr>"
    by (simp add: Let_def)
  show "isLastActiveTab (tabs b' ! i)"
    using i handleVisibilityChange_visible(1)[OF v, of now signed_out] by (simp add: b')
  show "\<forall>j < length (tabs b). j \<noteq> i \<longrightarrow> (i, j, JStr ''active'') \<in> set (in_flight b')"
    unfolding b' p by auto
qed

lemma other_preserves:
  assumes "claims_pending c b" and "tab_step a b = Some b'" and "\<forall>i now s. a \<noteq> Shown i now s"
  shows "claims_pending c b'"
proof (cases a)
  case (Shown i now s)
  with assms(3) show ?thesis by simp
next
  case (Hidden i)
  with assms(2) have i: "i < length (tabs b)" by (simp split: if_splits)
  have "handleVisibilityChange 0 (Resolves None) ((tabs b ! i)\<lparr>visible := False\<rparr>)
          = ((tabs b ! i)\<lparr>visible := False\<rparr>, [], None)"
    by (simp add: handleVisibilityChange_hidden)
  with assms(2) Hidden i have b': "b' = b\<lparr>tabs := (tabs b)[i := (tabs b ! i)\<lparr>visible := False\<rparr>]\<rparr>"
    by simp
  have same: "\<And>j. j < length (tabs b) \<Longrightarrow>
      isLastActiveTab ((tabs b)[i := (tabs b ! i)\<lparr>visible := False\<rparr>] ! j)
        = isLastActiveTab (tabs b ! j)"
    using i by (simp add: nth_list_update)
  show ?thesis
    using assms(1) unfolding claims_pending_def b'
    by (simp add: same)
next
  case (Deliver i j m)
  with assms(2) have ok: "(i, j, m) \<in> set (in_flight b)" "j < length (tabs b)"
    and b': "b' = b\<lparr>tabs := (tabs b)[j := bc_onmessage m (tabs b ! j)],
                   in_flight := remove1 (i, j, m) (in_flight b)\<rparr>"
    by (simp_all split: if_splits)
  show ?thesis
    unfolding claims_pending_def
  proof (intro allI impI)
    fix k
    assume k: "k < length (tabs b')" and h: "k \<noteq> c \<and> isLastActiveTab (tabs b' ! k)"
    from k b' have kb: "k < length (tabs b)" by simp
    show "(c, k, JStr ''active'') \<in> set (in_flight b')"
    proof (cases "k = j")
      case True
      with h b' ok have fl: "isLastActiveTab (bc_onmessage m (tabs b ! j))" by simp
      then have m: "m \<noteq> JStr ''active''" using bc_onmessage_active by auto
      with fl have "isLastActiveTab (tabs b ! j)" by (simp add: bc_onmessage_other)
      with assms(1) True h kb have "(c, k, JStr ''active'') \<in> set (in_flight b)"
        by (simp add: claims_pending_def)
      with m show ?thesis by (simp add: b' in_set_remove1)
    next
      case False
      with h b' have "isLastActiveTab (tabs b ! k)" by simp
      with assms(1) h kb have "(c, k, JStr ''active'') \<in> set (in_flight b)"
        by (simp add: claims_pending_def)
      with False show ?thesis by (simp add: b' in_set_remove1)
    qed
  qed
qed

lemma last_shown_None:
  "last_shown (a # as) = None \<Longrightarrow> (\<forall>i now s. a \<noteq> Shown i now s) \<and> last_shown as = None"
  by (cases a) (auto split: option.splits)

lemma quiet_steps_preserve:
  assumes "tab_steps as b = Some b'" and "last_shown as = None" and "claims_pending c b"
  shows "claims_pending c b'"
  using assms
proof (induction as arbitrary: b)
  case Nil
  then show ?case by simp
next
  case (Cons a as)
  from Cons.prems(2) have q: "\<forall>i now s. a \<noteq> Shown i now s" "last_shown as = None"
    using last_shown_None by blast+
  from Cons.prems(1) obtain b1 where s: "tab_step a b = Some b1" "tab_steps as b1 = Some b'"
    by (auto split: option.splits)
  from other_preserves[OF Cons.prems(3) s(1) q(1)] have "claims_pending c b1" .
  from Cons.IH[OF s(2) q(2) this] show ?case .
qed

lemma last_shown_Cons:
  "last_shown (a # as) = Some c \<Longrightarrow>
     last_shown as = Some c \<or> (last_shown as = None \<and> (\<exists>now s. a = Shown c now s))"
  by (cases a) (auto split: option.splits)

lemma steps_establish:
  assumes "tab_steps as b = Some b'" and "last_shown as = Some c"
  shows "claims_pending c b'"
  using assms
proof (induction as arbitrary: b)
  case Nil
  then show ?case by simp
next
  case (Cons a as)
  from Cons.prems(1) obtain b1 where s: "tab_step a b = Some b1" "tab_steps as b1 = Some b'"
    by (auto split: option.splits)
  from last_shown_Cons[OF Cons.prems(2)] show ?case
  proof
    assume "last_shown as = Some c"
    from Cons.IH[OF s(2) this] show ?thesis .
  next
    assume "last_shown as = None \<and> (\<exists>now s. a = Shown c now s)"
    then obtain now sg where q: "last_shown as = None" and a: "a = Shown c now sg" by blast
    from s(1) a have "claims_pending c b1" using shown_establishes by simp
    from quiet_steps_preserve[OF s(2) q this] show ?thesis .
  qed
qed

text \<open>
  Claim C8. In a visible tab, the handler sets the flag, posts exactly one \<^verbatim>\<open>'active'\<close>
  message and runs the expiry check on the stores with the flag set; the message goes to
  every other tab; a tab that receives \<^verbatim>\<open>'active'\<close> clears its flag. Hence after any
  sequence of visibility changes and deliveries that leaves no message in flight, every
  tab other than the last one that became visible has its flag cleared: at most one flag
  is set, and only the last tab to broadcast can hold it.
\<close>

theorem last_active_tab_after_settling:
  "(visible st \<longrightarrow>
      isLastActiveTab (fst (handleVisibilityChange now signed_out st))
      \<and> filter is_broadcast (fst (snd (handleVisibilityChange now signed_out st)))
          = [Broadcast (JStr ''active'')]
      \<and> handleVisibilityChange now signed_out st
          = (fst (checkTokenExpiry now signed_out (st\<lparr>isLastActiveTab := True\<rparr>)),
             Broadcast (JStr ''active'')
               # fst (snd (checkTokenExpiry now signed_out (st\<lparr>isLastActiveTab := True\<rparr>))),
             snd (snd (checkTokenExpiry now signed_out (st\<lparr>isLastActiveTab := True\<rparr>)))))
   \<and> (\<forall>i b'. tab_step (Shown i now signed_out) b = Some b' \<longrightarrow>
         isLastActiveTab (tabs b' ! i)
         \<and> (\<forall>j < length (tabs b). j \<noteq> i \<longrightarrow> (i, j, JStr ''active'') \<in> set (in_flight b')))
   \<and> \<not> isLastActiveTab (bc_onmessage (JStr ''active'') st)
   \<and> (\<forall>b'. tab_steps as b = Some b' \<and> in_flight b' = [] \<longrightarrow>
         (\<forall>c. last_shown as = Some c \<longrightarrow>
            (\<forall>j < length (tabs b'). j \<noteq> c \<longrightarrow> \<not> isLastActiveTab (tabs b' ! j))))"
proof -
  have posts: "\<forall>i b'. tab_step (Shown i now signed_out) b = Some b' \<longrightarrow>
         isLastActiveTab (tabs b' ! i)
         \<and> (\<forall>j < length (tabs b). j \<noteq> i \<longrightarrow> (i, j, JStr ''active'') \<in> set (in_flight b'))"
    using shown_posts by blast
  have settle: "\<forall>b'. tab_steps as b = Some b' \<and> in_flight b' = [] \<longrightarrow>
         (\<forall>c. last_shown as = Some c \<longrightarrow>
            (\<forall>j < length (tabs b'). j \<noteq> c \<longrightarrow> \<not> isLastActiveTab (tabs b' ! j)))"
  proof (intro allI impI)
    fix b' c j
    assume r: "tab_steps as b = Some b' \<and> in_flight b' = []" and l: "last_shown as = Some c"
      and j: "j < length (tabs b')" "j \<noteq> c"
    from steps_establish[of as b b' c] r l have "claims_pending c b'" by simp
    with r j show "\<not> isLastActiveTab (tabs b' ! j)"
      by (auto simp: claims_pending_def)
  qed
  show ?thesis
    using settle posts handleVisibilityChange_visible[of st now signed_out]
      bc_onmessage_active[of st]
    by simp
qed

text \<open>
  The theorem at two tabs: after tab 0 becomes visible and its message is delivered, tab 1
  has lost the flag; after tab 1 then becomes visible and its message is delivered, tab 0
  has lost it and tab 1 holds it.
\<close>

theorem last_active_tab_after_settling_witness:
  "visible stores0
   \<and> isLastActiveTab (fst (handleVisibilityChange 5 (Resolves None) stores0))
   \<and> map_option (\<lambda>b. (map isLastActiveTab (tabs b), in_flight b))
        (tab_steps [Shown 0 5 (Resolves None), Deliver 0 1 (JStr ''active'')]
           \<lparr>tabs = [stores0, stores0], in_flight = []\<rparr>)
       = Some ([True, False], [])
   \<and> map_option (\<lambda>b. (map isLastActiveTab (tabs b), in_flight b))
        (tab_steps [Shown 0 5 (Resolves None), Deliver 0 1 (JStr ''active''),
                    Shown 1 6 (Resolves None), Deliver 1 0 (JStr ''active'')]
           \<lparr>tabs = [stores0, stores0], in_flight = []\<rparr>)
       = Some ([False, True], [])
   \<and> last_shown [Shown 0 5 (Resolves None), Deliver 0 1 (JStr ''active''),
                  Shown 1 6 (Resolves None), Deliver 1 0 (JStr ''active'')] = Some 1"
  using last_active_tab_after_settling
          [where st = stores0 and now = 5 and signed_out = "Resolves None"
             and as = "[Shown 0 5 (Resolves None), Deliver 0 1 (JStr ''active''),
                        Shown 1 6 (Resolves None), Deliver 1 0 (JStr ''active'')]"
             and b = "\<lparr>tabs = [stores0, stores0], in_flight = []\<rparr>"]
  by (simp add: handleVisibilityChange_def checkTokenExpiry_def bc_onmessage_def posted_def
        stores0_def Let_def)

end
